theory Spec2Isabelle
  imports Main "HOL-Library.Log_Nat"
begin

section \<open>Python values\<close>

text \<open>
  The orchestration server receives JSON documents and handles them as dynamically typed
  Python values. A float is modelled by the exact value of the IEEE double (a rational),
  or one of the three special values; the two zeros are identified. A string is a list of
  8-bit characters, one character per code point. A dict is an association list in
  insertion order; lookup takes the first entry of a key.
\<close>

datatype pyfloat = Fin rat | PosInf | NegInf | NaN

datatype pyval =
    PNone
  | PBool bool
  | PInt int
  | PFloat pyfloat
  | PStr string
  | PList "pyval list"
  | PDict "(string \<times> pyval) list"

text \<open>
  Exceptions are values. \<open>HTTPException\<close> is what Flask's \<open>request.json\<close> raises on a body
  that is not JSON, \<open>ExternalError\<close> any exception of the language-model client.
\<close>

datatype error =
    AttributeError
  | TypeError
  | KeyError
  | OverflowError
  | ValueError
  | HTTPException
  | ExternalError

definition bindE :: "error + 'a \<Rightarrow> ('a \<Rightarrow> error + 'b) \<Rightarrow> error + 'b" where
  "bindE m f = (case m of Inl e \<Rightarrow> Inl e | Inr x \<Rightarrow> f x)"

text \<open>
  What the interpreter, the standard library and the external services compute, and the
  repository does not define. Every function of the model that needs one of them takes
  this record.
\<close>

record lib =
  hmac_sha256_hexdigest :: "string \<Rightarrow> string \<Rightarrow> string"
  float_repr :: "pyfloat \<Rightarrow> string"
  container_repr :: "pyval \<Rightarrow> string"
  exc_str :: "error \<Rightarrow> string"
  str_title :: "string \<Rightarrow> string"
  fromtimestamp_isoformat :: "pyval \<Rightarrow> error + string"
  isoformat :: "int \<Rightarrow> string"
  openai_client :: "error + unit"
  openai_parse :: "string \<Rightarrow> error + pyval"

subsection \<open>Integers as text\<close>

function show_nat :: "nat \<Rightarrow> string" where
  "show_nat n =
     (if n < 10 then [''0123456789'' ! n]
      else show_nat (n div 10) @ [''0123456789'' ! (n mod 10)])"
  by pat_completeness auto
termination
  by (relation "measure id") auto

declare show_nat.simps [simp del]

definition show_int :: "int \<Rightarrow> string" where
  "show_int i = (if i < 0 then CHR ''-'' # show_nat (nat (- i)) else show_nat (nat i))"

subsection \<open>Floating point\<close>

definition round_half_even :: "rat \<Rightarrow> int" where
  "round_half_even y =
     (let f = \<lfloor>y\<rfloor>; r = y - of_int f
      in if r < 1 / 2 then f else if 1 / 2 < r then f + 1 else if even f then f else f + 1)"

definition floor_log2 :: "rat \<Rightarrow> int" where
  \<comment> \<open>for \<open>0 < q\<close>: the \<open>e\<close> with \<open>2 ^ e \<le> q < 2 ^ (e + 1)\<close>\<close>
  "floor_log2 q = (if 1 \<le> q then bitlen \<lfloor>q\<rfloor> - 1 else - bitlen (\<lceil>1 / q\<rceil> - 1))"

definition pow2 :: "int \<Rightarrow> rat" where
  "pow2 e = (if 0 \<le> e then 2 ^ nat e else 1 / 2 ^ nat (- e))"

definition rnd :: "rat \<Rightarrow> rat" where
  \<comment> \<open>the nearest number with a 53-bit significand and exponent at least -1074, ties to even\<close>
  "rnd q =
     (if q = 0 then 0
      else let a = \<bar>q\<bar>; p = max (floor_log2 a - 52) (- 1074)
           in sgn q * of_int (round_half_even (a / pow2 p)) * pow2 p)"

definition to_double :: "rat \<Rightarrow> pyfloat" where
  \<comment> \<open>the nearest double; a magnitude of \<open>2 ^ 1024\<close> or more is an infinity\<close>
  "to_double q =
     (let r = rnd q
      in if r = 0 then Fin 0
         else if 1024 \<le> floor_log2 \<bar>r\<bar> then (if 0 < r then PosInf else NegInf)
         else Fin r)"

definition int_truediv :: "int \<Rightarrow> int \<Rightarrow> error + pyfloat" where
  \<comment> \<open>\<open>a / b\<close> on two ints, \<open>b\<close> not zero: correctly rounded, OverflowError beyond the doubles\<close>
  "int_truediv a b =
     (case to_double (of_int a / of_int b) of
        Fin r \<Rightarrow> Inr (Fin r)
      | _ \<Rightarrow> Inl OverflowError)"

definition float_div_pos :: "pyfloat \<Rightarrow> rat \<Rightarrow> pyfloat" where
  \<comment> \<open>a float divided by a positive double\<close>
  "float_div_pos f d = (case f of Fin x \<Rightarrow> to_double (x / d) | _ \<Rightarrow> f)"

definition py_truediv_int :: "pyval \<Rightarrow> int \<Rightarrow> error + pyfloat" where
  \<comment> \<open>\<open>v / n\<close> for a positive int literal \<open>n\<close> that is a double\<close>
  "py_truediv_int v n =
     (case v of
        PInt i \<Rightarrow> int_truediv i n
      | PBool b \<Rightarrow> int_truediv (if b then 1 else 0) n
      | PFloat f \<Rightarrow> Inr (float_div_pos f (of_int n))
      | _ \<Rightarrow> Inl TypeError)"

definition py_round4 :: "pyfloat \<Rightarrow> pyfloat" where
  \<comment> \<open>\<open>round(x, 4)\<close> on a float: the exact value rounded half-even to four decimals, then
      the nearest double; the special values round to themselves\<close>
  "py_round4 f =
     (case f of
        Fin x \<Rightarrow> to_double (of_int (round_half_even (x * 10000)) / 10000)
      | _ \<Rightarrow> f)"

definition float_lt_int :: "pyfloat \<Rightarrow> int \<Rightarrow> bool" where
  "float_lt_int f n =
     (case f of Fin x \<Rightarrow> x < of_int n | NegInf \<Rightarrow> True | PosInf \<Rightarrow> False | NaN \<Rightarrow> False)"

definition py_lt_int :: "pyval \<Rightarrow> int \<Rightarrow> error + bool" where
  \<comment> \<open>\<open>v < n\<close> for an int literal \<open>n\<close>\<close>
  "py_lt_int v n =
     (case v of
        PInt i \<Rightarrow> Inr (i < n)
      | PBool b \<Rightarrow> Inr ((if b then 1 else 0) < n)
      | PFloat f \<Rightarrow> Inr (float_lt_int f n)
      | _ \<Rightarrow> Inl TypeError)"

definition fmod_pos :: "rat \<Rightarrow> rat \<Rightarrow> rat" where
  \<comment> \<open>C's \<open>fmod(x, w)\<close> for \<open>0 < w\<close>: exact, with the sign of \<open>x\<close>\<close>
  "fmod_pos x w = x - w * of_int (if 0 \<le> x then \<lfloor>x / w\<rfloor> else \<lceil>x / w\<rceil>)"

definition float_rem_pos :: "pyfloat \<Rightarrow> rat \<Rightarrow> pyfloat" where
  \<comment> \<open>\<open>x % w\<close> on floats, \<open>0 < w\<close>\<close>
  "float_rem_pos f w =
     (case f of
        Fin x \<Rightarrow> (let r = fmod_pos x w in if r < 0 then to_double (r + w) else Fin r)
      | _ \<Rightarrow> NaN)"

definition float_floor_div_pos :: "pyfloat \<Rightarrow> rat \<Rightarrow> pyfloat" where
  \<comment> \<open>\<open>x // w\<close> on floats, \<open>0 < w\<close>\<close>
  "float_floor_div_pos f w =
     (case f of
        Fin x \<Rightarrow>
          (let r = fmod_pos x w;
               d0 = rnd (rnd (x - r) / w);
               d = (if r < 0 then rnd (d0 - 1) else d0)
           in if d = 0 then Fin 0
              else let fl = of_int \<lfloor>d\<rfloor> in Fin (if 1 / 2 < d - fl then fl + 1 else fl))
      | _ \<Rightarrow> NaN)"

definition py_floordiv_int :: "pyval \<Rightarrow> int \<Rightarrow> error + pyval" where
  \<comment> \<open>\<open>v // n\<close> for a positive int literal \<open>n\<close>\<close>
  "py_floordiv_int v n =
     (case v of
        PInt i \<Rightarrow> Inr (PInt (i div n))
      | PBool b \<Rightarrow> Inr (PInt ((if b then 1 else 0) div n))
      | PFloat f \<Rightarrow> Inr (PFloat (float_floor_div_pos f (of_int n)))
      | _ \<Rightarrow> Inl TypeError)"

definition py_mod_int :: "pyval \<Rightarrow> int \<Rightarrow> error + pyval" where
  \<comment> \<open>\<open>v % n\<close> for a positive int literal \<open>n\<close>\<close>
  "py_mod_int v n =
     (case v of
        PInt i \<Rightarrow> Inr (PInt (i mod n))
      | PBool b \<Rightarrow> Inr (PInt ((if b then 1 else 0) mod n))
      | PFloat f \<Rightarrow> Inr (PFloat (float_rem_pos f (of_int n)))
      | _ \<Rightarrow> Inl TypeError)"

definition float_add :: "pyfloat \<Rightarrow> pyfloat \<Rightarrow> pyfloat" where
  "float_add f g =
     (case (f, g) of
        (NaN, _) \<Rightarrow> NaN
      | (_, NaN) \<Rightarrow> NaN
      | (PosInf, NegInf) \<Rightarrow> NaN
      | (NegInf, PosInf) \<Rightarrow> NaN
      | (PosInf, _) \<Rightarrow> PosInf
      | (NegInf, _) \<Rightarrow> NegInf
      | (_, PosInf) \<Rightarrow> PosInf
      | (_, NegInf) \<Rightarrow> NegInf
      | (Fin x, Fin y) \<Rightarrow> to_double (x + y))"

definition float_of_int :: "int \<Rightarrow> error + pyfloat" where
  \<comment> \<open>an int operand of a float operation: OverflowError beyond the doubles\<close>
  "float_of_int i =
     (case to_double (of_int i) of
        Fin r \<Rightarrow> Inr (Fin r)
      | _ \<Rightarrow> Inl OverflowError)"

definition py_add :: "pyval \<Rightarrow> pyval \<Rightarrow> error + pyval" where
  \<comment> \<open>\<open>a + b\<close>; a bool counts as the int 0 or 1\<close>
  "py_add a b =
     (let as_int = (\<lambda>v. case v of PInt i \<Rightarrow> Some i | PBool c \<Rightarrow> Some (if c then 1 else 0)
                              | _ \<Rightarrow> None)
      in case (a, b) of
           (PStr s, PStr t) \<Rightarrow> Inr (PStr (s @ t))
         | (PList xs, PList ys) \<Rightarrow> Inr (PList (xs @ ys))
         | (PFloat f, PFloat g) \<Rightarrow> Inr (PFloat (float_add f g))
         | (PFloat f, _) \<Rightarrow>
             (case as_int b of
                None \<Rightarrow> Inl TypeError
              | Some j \<Rightarrow> bindE (float_of_int j) (\<lambda>g. Inr (PFloat (float_add f g))))
         | (_, PFloat g) \<Rightarrow>
             (case as_int a of
                None \<Rightarrow> Inl TypeError
              | Some i \<Rightarrow> bindE (float_of_int i) (\<lambda>f. Inr (PFloat (float_add f g))))
         | _ \<Rightarrow>
             (case (as_int a, as_int b) of
                (Some i, Some j) \<Rightarrow> Inr (PInt (i + j))
              | _ \<Rightarrow> Inl TypeError))"

subsection \<open>Truth, equality, containers\<close>

definition truthy :: "pyval \<Rightarrow> bool" where
  "truthy v =
     (case v of
        PNone \<Rightarrow> False
      | PBool b \<Rightarrow> b
      | PInt i \<Rightarrow> i \<noteq> 0
      | PFloat f \<Rightarrow> f \<noteq> Fin 0
      | PStr s \<Rightarrow> s \<noteq> []
      | PList xs \<Rightarrow> xs \<noteq> []
      | PDict d \<Rightarrow> d \<noteq> [])"

definition num_value :: "pyval \<Rightarrow> pyfloat option" where
  \<comment> \<open>the exact value of a number; ints and floats compare by value\<close>
  "num_value v =
     (case v of
        PBool b \<Rightarrow> Some (Fin (if b then 1 else 0))
      | PInt i \<Rightarrow> Some (Fin (of_int i))
      | PFloat f \<Rightarrow> Some f
      | _ \<Rightarrow> None)"

fun py_eq :: "pyval \<Rightarrow> pyval \<Rightarrow> bool" where
  "py_eq PNone b = (b = PNone)"
| "py_eq (PStr s) b = (b = PStr s)"
| "py_eq (PBool c) b = (num_value b = Some (Fin (if c then 1 else 0)))"
| "py_eq (PInt i) b = (num_value b = Some (Fin (of_int i)))"
| "py_eq (PFloat f) b = (f \<noteq> NaN \<and> num_value b = Some f)"
| "py_eq (PList xs) b = (case b of PList ys \<Rightarrow> list_all2 py_eq xs ys | _ \<Rightarrow> False)"
| "py_eq (PDict d) b =
     (case b of
        PDict d' \<Rightarrow>
          (\<forall>(k, v) \<in> set d. \<exists>(k', v') \<in> set d'. k = k' \<and> py_eq v v') \<and>
          (\<forall>(k', v') \<in> set d'. \<exists>(k, v) \<in> set d. k = k' \<and> py_eq v v')
      | _ \<Rightarrow> False)"

definition py_get :: "pyval \<Rightarrow> string \<Rightarrow> pyval \<Rightarrow> error + pyval" where
  \<comment> \<open>\<open>v.get(key, dflt)\<close>: only a dict has the method\<close>
  "py_get v key dflt =
     (case v of
        PDict d \<Rightarrow> Inr (case map_of d key of Some x \<Rightarrow> x | None \<Rightarrow> dflt)
      | _ \<Rightarrow> Inl AttributeError)"

definition py_items :: "pyval \<Rightarrow> error + (string \<times> pyval) list" where
  "py_items v = (case v of PDict d \<Rightarrow> Inr d | _ \<Rightarrow> Inl AttributeError)"

definition py_iter :: "pyval \<Rightarrow> error + pyval list" where
  \<comment> \<open>the elements a \<open>for\<close> loop visits\<close>
  "py_iter v =
     (case v of
        PList xs \<Rightarrow> Inr xs
      | PStr s \<Rightarrow> Inr (map (\<lambda>c. PStr [c]) s)
      | PDict d \<Rightarrow> Inr (map (\<lambda>(k, x). PStr k) d)
      | _ \<Rightarrow> Inl TypeError)"

fun is_infix :: "string \<Rightarrow> string \<Rightarrow> bool" where
  "is_infix xs [] = (xs = [])"
| "is_infix xs (y # ys) = (take (length xs) (y # ys) = xs \<or> is_infix xs ys)"

definition py_contains :: "pyval \<Rightarrow> string \<Rightarrow> error + bool" where
  \<comment> \<open>\<open>key in v\<close> for a string \<open>key\<close>\<close>
  "py_contains v key =
     (case v of
        PDict d \<Rightarrow> Inr (map_of d key \<noteq> None)
      | PStr s \<Rightarrow> Inr (is_infix key s)
      | PList xs \<Rightarrow> Inr (\<exists>x \<in> set xs. py_eq x (PStr key))
      | _ \<Rightarrow> Inl TypeError)"

definition py_getitem :: "pyval \<Rightarrow> string \<Rightarrow> error + pyval" where
  \<comment> \<open>\<open>v[key]\<close> for a string \<open>key\<close>\<close>
  "py_getitem v key =
     (case v of
        PDict d \<Rightarrow> (case map_of d key of Some x \<Rightarrow> Inr x | None \<Rightarrow> Inl KeyError)
      | _ \<Rightarrow> Inl TypeError)"

definition py_len :: "pyval \<Rightarrow> error + nat" where
  "py_len v =
     (case v of
        PStr s \<Rightarrow> Inr (length s)
      | PList xs \<Rightarrow> Inr (length xs)
      | PDict d \<Rightarrow> Inr (length d)
      | _ \<Rightarrow> Inl TypeError)"

definition py_slice_to :: "pyval \<Rightarrow> nat \<Rightarrow> error + pyval" where
  \<comment> \<open>\<open>v[:n]\<close>\<close>
  "py_slice_to v n =
     (case v of
        PStr s \<Rightarrow> Inr (PStr (take n s))
      | PList xs \<Rightarrow> Inr (PList (take n xs))
      | _ \<Rightarrow> Inl TypeError)"

primrec dict_set :: "('k \<times> 'v) list \<Rightarrow> 'k \<Rightarrow> 'v \<Rightarrow> ('k \<times> 'v) list" where
  \<comment> \<open>\<open>d[key] = v\<close>: a key keeps its place, a new key goes last\<close>
  "dict_set [] key v = [(key, v)]"
| "dict_set (p # ps) key v = (if fst p = key then (key, v) # ps else p # dict_set ps key v)"

primrec mapE :: "('a \<Rightarrow> error + 'b) \<Rightarrow> 'a list \<Rightarrow> error + 'b list" where
  "mapE f [] = Inr []"
| "mapE f (x # xs) =
     (case f x of
        Inl e \<Rightarrow> Inl e
      | Inr y \<Rightarrow> (case mapE f xs of Inl e \<Rightarrow> Inl e | Inr ys \<Rightarrow> Inr (y # ys)))"

primrec foldE :: "('s \<Rightarrow> 'a \<Rightarrow> error + 's) \<Rightarrow> 's \<Rightarrow> 'a list \<Rightarrow> error + 's" where
  "foldE f s [] = Inr s"
| "foldE f s (x # xs) = (case f s x of Inl e \<Rightarrow> Inl e | Inr s' \<Rightarrow> foldE f s' xs)"

subsection \<open>Text of a value\<close>

definition py_str :: "lib \<Rightarrow> pyval \<Rightarrow> string" where
  \<comment> \<open>\<open>str(v)\<close>, which is what an f-string field without a format puts\<close>
  "py_str L v =
     (case v of
        PNone \<Rightarrow> ''None''
      | PBool b \<Rightarrow> (if b then ''True'' else ''False'')
      | PInt i \<Rightarrow> show_int i
      | PFloat f \<Rightarrow> float_repr L f
      | PStr s \<Rightarrow> s
      | _ \<Rightarrow> container_repr L v)"

section \<open>Payload normalizer (utils/dataproc.py)\<close>

definition format_duration :: "lib \<Rightarrow> pyval \<Rightarrow> error + string" where
  "format_duration L seconds =
     bindE (py_lt_int seconds 60) (\<lambda>c1.
       if c1 then Inr (py_str L seconds @ '' seconds'')
       else bindE (py_lt_int seconds 3600) (\<lambda>c2.
         if c2 then
           bindE (py_floordiv_int seconds 60) (\<lambda>minutes.
           bindE (py_mod_int seconds 60) (\<lambda>secs.
             Inr (py_str L minutes @ ''m '' @ py_str L secs @ ''s'')))
         else
           bindE (py_floordiv_int seconds 3600) (\<lambda>hours.
           bindE (py_mod_int seconds 3600) (\<lambda>rest.
           bindE (py_floordiv_int rest 60) (\<lambda>minutes.
           bindE (py_mod_int seconds 60) (\<lambda>secs.
             Inr (py_str L hours @ ''h '' @ py_str L minutes @ ''m ''
                    @ py_str L secs @ ''s'')))))))"

definition format_entry :: "pyval \<Rightarrow> error + pyval" where
  "format_entry entry =
     bindE (py_get entry ''role'' (PStr ''unknown'')) (\<lambda>role.
     bindE (py_get entry ''message'' (PStr [])) (\<lambda>message.
     bindE (py_get entry ''time_in_call_secs'' (PInt 0)) (\<lambda>time_in_call_secs.
     bindE (py_get entry ''interrupted'' (PBool False)) (\<lambda>interrupted.
     bindE (py_get entry ''source_medium'' (PStr ''unknown'')) (\<lambda>source_medium.
       Inr (PDict [(''role'', role), (''message'', message),
                   (''time_in_call_secs'', time_in_call_secs),
                   (''interrupted'', interrupted),
                   (''source_medium'', source_medium)]))))))"

definition entry_message :: "pyval \<Rightarrow> pyval" where
  \<comment> \<open>\<open>formatted_entry['message']\<close> of an entry that \<open>format_entry\<close> built\<close>
  "entry_message fe = (case py_getitem fe ''message'' of Inr m \<Rightarrow> m | Inl e \<Rightarrow> PNone)"

definition extract_transcript_data :: "pyval \<Rightarrow> error + (string \<times> pyval) list" where
  "extract_transcript_data webhook_data =
     bindE (py_get webhook_data ''data'' (PDict [])) (\<lambda>data.
     bindE (py_get data ''transcript'' (PList [])) (\<lambda>transcript_raw.
     bindE (py_iter transcript_raw) (\<lambda>entries.
     bindE (mapE format_entry entries) (\<lambda>formatted.
     let formatted_transcript = filter (\<lambda>fe. truthy (entry_message fe)) formatted in
     bindE (py_get data ''conversation_id'' PNone) (\<lambda>conversation_id.
     bindE (py_get data ''agent_id'' PNone) (\<lambda>agent_id.
       Inr [(''conversation_id'', conversation_id),
            (''agent_id'', agent_id),
            (''transcript'', PList formatted_transcript),
            (''message_count'', PInt (int (length formatted_transcript))),
            (''raw_transcript'', transcript_raw)]))))))"

definition str_replace_underscore :: "string \<Rightarrow> string" where
  \<comment> \<open>\<open>feature.replace('_', ' ')\<close>\<close>
  "str_replace_underscore s = map (\<lambda>c. if c = CHR ''_'' then CHR '' '' else c) s"

definition feature_used :: "pyval \<Rightarrow> bool" where
  "feature_used details =
     (case details of
        PDict d \<Rightarrow> truthy (case map_of d ''used'' of Some x \<Rightarrow> x | None \<Rightarrow> PNone)
      | PBool b \<Rightarrow> b
      | _ \<Rightarrow> False)"

definition extract_features_used :: "lib \<Rightarrow> pyval \<Rightarrow> error + pyval" where
  "extract_features_used L features_usage =
     bindE (py_items features_usage) (\<lambda>items.
       Inr (PList (map (\<lambda>(feature, details). PStr (str_title L (str_replace_underscore feature)))
                     (filter (\<lambda>(feature, details). feature_used details) items))))"

definition zero_usage :: pyval where
  "zero_usage = PDict [(''total_input_tokens'', PInt 0), (''total_output_tokens'', PInt 0),
                       (''total_cost'', PInt 0)]"

definition add_to_field :: "pyval \<Rightarrow> string \<Rightarrow> pyval \<Rightarrow> error + pyval" where
  \<comment> \<open>\<open>d[key] += x\<close> on a dict of the per-model totals\<close>
  "add_to_field d key x =
     bindE (py_getitem d key) (\<lambda>cur.
     bindE (py_add cur x) (\<lambda>new.
       case d of PDict kvs \<Rightarrow> Inr (PDict (dict_set kvs key new)) | _ \<Rightarrow> Inl TypeError))"

definition add_model_usage ::
  "(string \<times> pyval) list \<Rightarrow> string \<times> pyval \<Rightarrow> error + (string \<times> pyval) list" where
  \<comment> \<open>the body of the loop over \<open>models.items()\<close>\<close>
  "add_model_usage llm_details item =
     (case item of (model_name, usage) \<Rightarrow>
        let details0 = (if map_of llm_details model_name = None
                        then dict_set llm_details model_name zero_usage else llm_details) in
        bindE (py_get usage ''input'' (PDict [])) (\<lambda>input_data.
        bindE (py_get usage ''output_total'' (PDict [])) (\<lambda>output_data.
        bindE (py_getitem (PDict details0) model_name) (\<lambda>m0.
        bindE (py_get input_data ''tokens'' (PInt 0)) (\<lambda>tokens_in.
        bindE (add_to_field m0 ''total_input_tokens'' tokens_in) (\<lambda>m1.
        bindE (py_get output_data ''tokens'' (PInt 0)) (\<lambda>tokens_out.
        bindE (add_to_field m1 ''total_output_tokens'' tokens_out) (\<lambda>m2.
        bindE (py_get input_data ''price'' (PInt 0)) (\<lambda>price_in.
        bindE (py_get output_data ''price'' (PInt 0)) (\<lambda>price_out.
        bindE (py_add price_in price_out) (\<lambda>price.
        bindE (add_to_field m2 ''total_cost'' price) (\<lambda>m3.
          Inr (dict_set details0 model_name m3)))))))))))))"

definition add_generation_usage ::
  "pyval \<Rightarrow> (string \<times> pyval) list \<Rightarrow> string \<Rightarrow> error + (string \<times> pyval) list" where
  \<comment> \<open>the body of the loop over the two generation types\<close>
  "add_generation_usage llm_usage llm_details generation_type =
     bindE (py_contains llm_usage generation_type) (\<lambda>present.
       if present then
         bindE (py_getitem llm_usage generation_type) (\<lambda>usage.
         bindE (py_get usage ''model_usage'' (PDict [])) (\<lambda>models.
         bindE (py_items models) (\<lambda>items.
           foldE add_model_usage llm_details items)))
       else Inr llm_details)"

definition extract_call_statistics :: "lib \<Rightarrow> pyval \<Rightarrow> error + (string \<times> pyval) list" where
  "extract_call_statistics L webhook_data =
     bindE (py_get webhook_data ''data'' (PDict [])) (\<lambda>data.
     bindE (py_get data ''metadata'' (PDict [])) (\<lambda>metadata.
     bindE (py_get metadata ''charging'' (PDict [])) (\<lambda>charging.
     bindE (py_get charging ''call_charge'' (PInt 0)) (\<lambda>call_charge.
     bindE (py_truediv_int call_charge 100000) (\<lambda>call_cost_dollars.
     bindE (py_get charging ''llm_charge'' (PInt 0)) (\<lambda>llm_charge.
     bindE (py_truediv_int llm_charge 100000) (\<lambda>llm_cost_dollars.
     bindE (py_get metadata ''cost'' (PInt 0)) (\<lambda>cost.
     bindE (py_truediv_int cost 100000) (\<lambda>total_cost_dollars.
     bindE (py_get charging ''llm_usage'' (PDict [])) (\<lambda>llm_usage.
     bindE (foldE (add_generation_usage llm_usage) []
              [''irreversible_generation'', ''initiated_generation'']) (\<lambda>llm_details.
     bindE (py_get metadata ''call_duration_secs'' (PInt 0)) (\<lambda>call_duration_secs.
     bindE (format_duration L call_duration_secs) (\<lambda>call_duration_formatted.
     bindE (py_get metadata ''start_time_unix_secs'' PNone) (\<lambda>start.
     bindE (if truthy start
            then bindE (py_get metadata ''start_time_unix_secs'' (PInt 0)) (\<lambda>t.
                 bindE (fromtimestamp_isoformat L t) (\<lambda>iso. Inr (PStr iso)))
            else Inr PNone) (\<lambda>start_time.
     bindE (py_get metadata ''termination_reason'' (PStr ''Unknown'')) (\<lambda>termination_reason.
     bindE (py_get metadata ''main_language'' (PStr ''Unknown'')) (\<lambda>main_language.
     bindE (py_get metadata ''features_usage'' (PDict [])) (\<lambda>features_usage.
     bindE (extract_features_used L features_usage) (\<lambda>features_used.
       Inr [(''call_duration_secs'', call_duration_secs),
            (''call_duration_formatted'', PStr call_duration_formatted),
            (''start_time'', start_time),
            (''termination_reason'', termination_reason),
            (''main_language'', main_language),
            (''costs'', PDict
               [(''total_cost_dollars'', PFloat (py_round4 total_cost_dollars)),
                (''call_cost_dollars'', PFloat (py_round4 call_cost_dollars)),
                (''llm_cost_dollars'', PFloat (py_round4 llm_cost_dollars)),
                (''total_cost_credits'', cost),
                (''call_cost_credits'', call_charge),
                (''llm_cost_credits'', llm_charge)]),
            (''llm_usage'', PDict llm_details),
            (''features_used'', features_used)])))))))))))))))))))"

definition collect_item :: "string \<times> pyval \<Rightarrow> error + (string \<times> pyval)" where
  \<comment> \<open>the body of the loop over \<open>data_collection.items()\<close>\<close>
  "collect_item entry =
     (case entry of (key, item) \<Rightarrow>
        bindE (py_get item ''value'' PNone) (\<lambda>val.
        bindE (py_get item ''json_schema'' (PDict [])) (\<lambda>schema1.
        bindE (py_get schema1 ''type'' (PStr ''unknown'')) (\<lambda>ty.
        bindE (py_get item ''json_schema'' (PDict [])) (\<lambda>schema2.
        bindE (py_get schema2 ''description'' (PStr [])) (\<lambda>description.
        bindE (py_get item ''rationale'' (PStr [])) (\<lambda>rationale.
          Inr (key, PDict [(''value'', val), (''type'', ty), (''description'', description),
                           (''rationale'', rationale)]))))))))"

definition extract_analysis_data :: "pyval \<Rightarrow> error + (string \<times> pyval) list" where
  "extract_analysis_data webhook_data =
     bindE (py_get webhook_data ''data'' (PDict [])) (\<lambda>data.
     bindE (py_get data ''analysis'' (PDict [])) (\<lambda>analysis.
     bindE (py_get analysis ''data_collection_results'' (PDict [])) (\<lambda>data_collection.
     bindE (py_items data_collection) (\<lambda>items.
     bindE (mapE collect_item items) (\<lambda>collected.
     bindE (py_get analysis ''transcript_summary'' (PStr [])) (\<lambda>summary.
     bindE (py_get analysis ''call_successful'' (PStr ''unknown'')) (\<lambda>call_successful.
     bindE (py_get analysis ''evaluation_criteria_results'' (PDict [])) (\<lambda>evaluation_results.
       Inr [(''summary'', summary),
            (''call_successful'', call_successful),
            (''collected_data'', PDict (foldl (\<lambda>d (k, v). dict_set d k v) [] collected)),
            (''evaluation_results'', evaluation_results)]))))))))"

definition error_result :: "string \<Rightarrow> pyval \<Rightarrow> (string \<times> pyval) list" where
  \<comment> \<open>the error-tagged result: a message and the raw payload\<close>
  "error_result msg webhook_data = [(''error'', PStr msg), (''raw_data'', webhook_data)]"

definition process_post_call_webhook ::
  "lib \<Rightarrow> int \<Rightarrow> pyval \<Rightarrow> error + (string \<times> pyval) list" where
  \<comment> \<open>\<open>now\<close> is the reading of \<open>datetime.now()\<close>. Only the first \<open>get\<close> is outside the
      \<open>try\<close>.\<close>
  "process_post_call_webhook L now webhook_data =
     bindE (py_get webhook_data ''type'' (PStr [])) (\<lambda>webhook_type.
       if \<not> py_eq webhook_type (PStr ''post_call_transcription'') then
         Inr (error_result (''Unexpected webhook type: '' @ py_str L webhook_type) webhook_data)
       else
         (case
            bindE (extract_transcript_data webhook_data) (\<lambda>transcript_data.
            bindE (extract_call_statistics L webhook_data) (\<lambda>statistics.
            bindE (extract_analysis_data webhook_data) (\<lambda>analysis.
            bindE (py_get (PDict transcript_data) ''conversation_id'' PNone) (\<lambda>conversation_id.
            bindE (py_get (PDict transcript_data) ''agent_id'' PNone) (\<lambda>agent_id.
              Inr [(''webhook_type'', webhook_type),
                   (''timestamp'', PStr (isoformat L now)),
                   (''conversation_id'', conversation_id),
                   (''agent_id'', agent_id),
                   (''transcript'', PDict transcript_data),
                   (''statistics'', PDict statistics),
                   (''analysis'', PDict analysis),
                   (''raw_data'', webhook_data)])))))
          of
            Inr result \<Rightarrow> Inr result
          | Inl e \<Rightarrow>
              Inr (error_result (''Error processing webhook: '' @ exc_str L e) webhook_data)))"

definition extract_key_patient_info :: "pyval \<Rightarrow> error + (string \<times> pyval) list" where
  "extract_key_patient_info collected_data =
     (let field = (\<lambda>key dflt.
            bindE (py_get collected_data key (PDict [])) (\<lambda>item. py_get item ''value'' dflt)) in
      bindE (field ''patient_name'' (PStr ''Unknown'')) (\<lambda>patient_name.
      bindE (field ''patient_dob'' (PStr ''Unknown'')) (\<lambda>patient_dob.
      bindE (field ''primary_diagnosis'' (PStr ''Unknown'')) (\<lambda>primary_diagnosis.
      bindE (field ''comorbidities'' (PStr ''None'')) (\<lambda>comorbidities.
      bindE (field ''transportation_assistance'' (PBool False)) (\<lambda>transportation_needed.
        Inr [(''patient_name'', patient_name),
             (''patient_dob'', patient_dob),
             (''primary_diagnosis'', primary_diagnosis),
             (''comorbidities'', comorbidities),
             (''transportation_needed'', transportation_needed)]))))))"

section \<open>Stage classification (utils/conversation\_stage.py)\<close>

definition message_line :: "lib \<Rightarrow> nat \<times> pyval \<Rightarrow> error + string" where
  \<comment> \<open>one line of \<open>messages_text\<close>, for the message at index \<open>i\<close>\<close>
  "message_line L im =
     (case im of (i, msg) \<Rightarrow>
        bindE (py_getitem msg ''role'') (\<lambda>r.
        let role = (if py_eq r (PStr ''agent'') then ''Agent'' else ''User'') in
        bindE (py_getitem msg ''message'') (\<lambda>m.
          Inr (show_int (int i + 1) @ ''. '' @ role @ '': '' @ py_str L m @ [CHR 0x0A]))))"

definition classify_conversation_stages :: "lib \<Rightarrow> pyval \<Rightarrow> error + pyval" where
  \<comment> \<open>\<open>openai_parse\<close> stands for the request to the language model with the prompt built
      around \<open>messages_text\<close>, and for the dump of its parsed answer\<close>
  "classify_conversation_stages L transcript_data =
     bindE (openai_client L) (\<lambda>client.
     bindE (py_getitem transcript_data ''transcript'') (\<lambda>msgs.
     bindE (py_iter msgs) (\<lambda>entries.
     bindE (mapE (message_line L) (zip [0..<length entries] entries)) (\<lambda>lines.
       openai_parse L (concat lines)))))"

section \<open>Orchestration server (conv\_orchestration.py)\<close>

record config =
  WEBHOOK_SECRET :: string
  SERVER_PORT :: int

datatype ConversationStatus = INITIALIZING | ACTIVE | COMPLETED | ERROR

definition status_value :: "ConversationStatus \<Rightarrow> string" where
  "status_value st =
     (case st of INITIALIZING \<Rightarrow> ''initializing'' | ACTIVE \<Rightarrow> ''active''
               | COMPLETED \<Rightarrow> ''completed'' | ERROR \<Rightarrow> ''error'')"

text \<open>Times are microseconds on the clock of \<open>datetime.utcnow()\<close>.\<close>

record ConversationSession =
  session_id :: string
  agent_id :: string
  conversation_id :: pyval
  status :: ConversationStatus
  created_at :: int
  updated_at :: int
  metadata :: "(string \<times> pyval) list"
  webhook_data :: "pyval list"
  processed_data :: "(string \<times> pyval) list"

datatype target = ToClient string | ToRoom string

text \<open>
  The state of the process: the \<open>sessions\<close> dict in insertion order, the events handed to
  the realtime layer, and the rooms clients have joined.
\<close>

record server =
  sessions :: "(string \<times> ConversationSession) list"
  outbox :: "(string \<times> pyval \<times> target) list"
  rooms :: "(string \<times> string) list"

text \<open>
  One HTTP request, as Flask presents it: the signature header, the raw body, what
  \<open>request.json\<close> gives, and the peer address.
\<close>

record request =
  signature_header :: "string option"
  raw_body :: string
  json_body :: "error + pyval"
  remote_addr :: string

text \<open>
  The clocks during one handler: \<open>utcnow k\<close> is the k-th reading of \<open>datetime.utcnow()\<close>
  the handler makes, \<open>local_now\<close> the reading of \<open>datetime.now()\<close>.
\<close>

record env =
  utcnow :: "nat \<Rightarrow> int"
  local_now :: int

record response =
  code :: nat
  body :: pyval

definition agent_configs :: "(string \<times> string \<times> string \<times> string) list" where
  \<comment> \<open>each key with its \<open>agent_id\<close>, \<open>name\<close> and \<open>role\<close>\<close>
  "agent_configs =
     [(''clara'', ''agent_01jz0h1rqperc8z03gsvkprmsw'', ''Clara'',
         ''Patient Intake Coordinator''),
      (''marcus'', ''agent_01jz2jh0cdekqv8j35hqpw9wbb'', ''Marcus'',
         ''Authorization Coordinator''),
      (''sarah'', ''agent_01jz2n3j1dfnrbj2vpdpghkbm3'', ''Sarah'',
         ''Patient Educator''),
      (''david'', ''agent_01k0rvs4awfsn8vj6n4awffc2f'', ''David'',
         ''Extended Stay Authorization Coordinator'')]"

subsection \<open>Webhook verification\<close>

definition compare_digest :: "string \<Rightarrow> string \<Rightarrow> error + bool" where
  \<comment> \<open>\<open>hmac.compare_digest\<close> on two strings: a TypeError unless both are ASCII\<close>
  "compare_digest a b =
     (if (\<forall>c \<in> set (a @ b). of_char c < (128 :: nat)) then Inr (a = b) else Inl TypeError)"

definition verify_webhook_signature :: "lib \<Rightarrow> config \<Rightarrow> request \<Rightarrow> bool" where
  "verify_webhook_signature L C request_obj =
     (case signature_header request_obj of
        None \<Rightarrow> False
      | Some signature \<Rightarrow>
          if signature = [] then False
          else
            (let payload = raw_body request_obj;
                 expected_signature = hmac_sha256_hexdigest L (WEBHOOK_SECRET C) payload
             in case compare_digest signature expected_signature of
                  Inl e \<Rightarrow> False
                | Inr same \<Rightarrow> if \<not> same then True else True))"

subsection \<open>Correlation\<close>

primrec first_index :: "('a \<Rightarrow> bool) \<Rightarrow> 'a list \<Rightarrow> nat option" where
  "first_index P [] = None"
| "first_index P (x # xs) = (if P x then Some 0 else map_option Suc (first_index P xs))"

definition status_open :: "ConversationSession \<Rightarrow> bool" where
  \<comment> \<open>\<open>sess.status in [ACTIVE, INITIALIZING]\<close>\<close>
  "status_open sess = (status sess = ACTIVE \<or> status sess = INITIALIZING)"

definition find_by_conversation_id ::
  "(string \<times> ConversationSession) list \<Rightarrow> pyval \<Rightarrow> nat option" where
  \<comment> \<open>lines 318-323, the scan with \<open>break\<close>: the place of the first session whose
      \<open>conversation_id\<close> equals the callback's\<close>
  "find_by_conversation_id ss cid = first_index (\<lambda>p. py_eq (conversation_id (snd p)) cid) ss"

definition matching_sessions ::
  "(string \<times> ConversationSession) list \<Rightarrow> pyval \<Rightarrow> nat list" where
  \<comment> \<open>lines 337-340: the places of the open sessions of the agent\<close>
  "matching_sessions ss agent =
     filter (\<lambda>i. py_eq (PStr (agent_id (snd (ss ! i)))) agent \<and> status_open (snd (ss ! i)))
       [0..<length ss]"

fun recent_sessions ::
  "(nat \<Rightarrow> int) \<Rightarrow> nat \<Rightarrow> nat \<Rightarrow> (string \<times> ConversationSession) list \<Rightarrow> nat list" where
  \<comment> \<open>lines 353-357: the places of the recent open sessions among \<open>ps\<close>, whose first place
      is \<open>i\<close>; \<open>k\<close> counts the clock readings made so far, one for each open session\<close>
  "recent_sessions clk k i [] = []"
| "recent_sessions clk k i (p # ps) =
     (if status_open (snd p)
      then (if clk k - created_at (snd p) < 300 * 1000000
            then i # recent_sessions clk (Suc k) (Suc i) ps
            else recent_sessions clk (Suc k) (Suc i) ps)
      else recent_sessions clk k (Suc i) ps)"

fun max_created :: "(string \<times> ConversationSession) list \<Rightarrow> nat \<Rightarrow> nat list \<Rightarrow> nat" where
  \<comment> \<open>\<open>max(candidates, key=lambda s: s.created_at)\<close>: the first of the latest\<close>
  "max_created ss best [] = best"
| "max_created ss best (i # rest) =
     max_created ss (if created_at (snd (ss ! best)) < created_at (snd (ss ! i)) then i else best)
       rest"

definition bind_session ::
  "(string \<times> ConversationSession) list \<Rightarrow> nat \<Rightarrow> pyval
     \<Rightarrow> (string \<times> ConversationSession) list" where
  "bind_session ss i cid =
     ss[i := (fst (ss ! i), (snd (ss ! i))\<lparr>conversation_id := cid, status := ACTIVE\<rparr>)]"

definition correlate ::
  "env \<Rightarrow> (string \<times> ConversationSession) list \<Rightarrow> pyval \<Rightarrow> pyval \<Rightarrow> pyval
     \<Rightarrow> error + ((string \<times> ConversationSession) list \<times> nat option \<times> nat)" where
  \<comment> \<open>lines 318-367 of \<open>webhook\<close>: gives the sessions after binding, the place of the
      session found, and how many times the clock was read\<close>
  "correlate E ss payload webhook_type cid =
     (case find_by_conversation_id ss cid of
        Some i \<Rightarrow> Inr (ss, Some i, 0)
      | None \<Rightarrow>
          if py_eq webhook_type (PStr ''post_call_transcription'') then
            bindE (py_get payload ''data'' (PDict [])) (\<lambda>data.
            bindE (py_get data ''agent_id'' PNone) (\<lambda>agent.
              if truthy agent then
                (case matching_sessions ss agent of
                   i # rest \<Rightarrow>
                     Inr (bind_session ss (max_created ss i rest) cid,
                          Some (max_created ss i rest), 0)
                 | [] \<Rightarrow>
                     (let readings = length (filter (\<lambda>p. status_open (snd p)) ss)
                      in case recent_sessions (utcnow E) 0 0 ss of
                           i # rest \<Rightarrow>
                             Inr (bind_session ss (max_created ss i rest) cid,
                                  Some (max_created ss i rest), readings)
                         | [] \<Rightarrow> Inr (ss, None, readings)))
              else Inr (ss, None, 0)))
          else Inr (ss, None, 0))"

subsection \<open>Webhook endpoint\<close>

definition format_4f :: "pyval \<Rightarrow> error + unit" where
  \<comment> \<open>whether the format \<open>:.4f\<close> accepts the value; the text only goes to the log\<close>
  "format_4f v =
     (case v of
        PFloat f \<Rightarrow> Inr ()
      | PInt i \<Rightarrow> bindE (float_of_int i) (\<lambda>f. Inr ())
      | PBool b \<Rightarrow> Inr ()
      | PStr s \<Rightarrow> Inl ValueError
      | _ \<Rightarrow> Inl TypeError)"

definition log_post_call :: "(string \<times> pyval) list \<Rightarrow> error + unit" where
  \<comment> \<open>lines 397-407: what the log lines after the processing evaluate, for the exceptions
      they can raise\<close>
  "log_post_call pd =
     bindE (py_get (PDict pd) ''transcript'' (PDict [])) (\<lambda>t.
     bindE (py_get t ''message_count'' (PInt 0)) (\<lambda>message_count.
     bindE (py_get (PDict pd) ''statistics'' (PDict [])) (\<lambda>s1.
     bindE (py_get s1 ''call_duration_formatted'' (PStr ''N/A'')) (\<lambda>duration.
     bindE (py_get (PDict pd) ''statistics'' (PDict [])) (\<lambda>s2.
     bindE (py_get s2 ''costs'' (PDict [])) (\<lambda>costs.
     bindE (py_get costs ''total_cost_dollars'' (PInt 0)) (\<lambda>total.
     bindE (format_4f total) (\<lambda>u.
       if map_of pd ''analysis'' \<noteq> None then
         bindE (py_getitem (PDict pd) ''analysis'') (\<lambda>a.
         bindE (py_contains a ''collected_data'') (\<lambda>present.
           if present then
             bindE (py_getitem a ''collected_data'') (\<lambda>cd.
             bindE (extract_key_patient_info cd) (\<lambda>patient_info. Inr ()))
           else Inr ()))
       else Inr ()))))))))"

definition post_call_processing ::
  "lib \<Rightarrow> env \<Rightarrow> pyval \<Rightarrow> ConversationSession \<Rightarrow> ConversationSession" where
  \<comment> \<open>lines 380-411: the inner \<open>try\<close> of the endpoint, with its handler\<close>
  "post_call_processing L E payload sess =
     (case process_post_call_webhook L (local_now E) payload of
        Inl e \<Rightarrow>
          sess\<lparr>processed_data :=
                 dict_set (processed_data sess) ''processing_error'' (PStr (exc_str L e))\<rparr>
      | Inr pd \<Rightarrow>
          (let pd1 =
                 (if map_of pd ''transcript'' \<noteq> None then
                    (case bindE (py_getitem (PDict pd) ''transcript'')
                            (classify_conversation_stages L) of
                       Inr classified \<Rightarrow> dict_set pd ''classified_transcript'' classified
                     | Inl e \<Rightarrow> pd)
                  else pd)
           in case log_post_call pd1 of
                Inr u \<Rightarrow> sess\<lparr>processed_data := pd1\<rparr>
              | Inl e \<Rightarrow>
                  sess\<lparr>processed_data :=
                         dict_set pd1 ''processing_error'' (PStr (exc_str L e))\<rparr>))"

definition next_status :: "pyval \<Rightarrow> ConversationStatus \<Rightarrow> ConversationStatus" where
  \<comment> \<open>lines 413-417\<close>
  "next_status webhook_type st =
     (if py_eq webhook_type (PStr ''conversation.completed'')
         \<or> py_eq webhook_type (PStr ''post_call_transcription'') then COMPLETED
      else if py_eq webhook_type (PStr ''conversation.error'') then ERROR
      else st)"

definition analysis_summary :: "(string \<times> pyval) list \<Rightarrow> error + pyval" where
  \<comment> \<open>\<open>session.processed_data.get('analysis', {}).get('summary', '')\<close>\<close>
  "analysis_summary pd =
     bindE (py_get (PDict pd) ''analysis'' (PDict [])) (\<lambda>a. py_get a ''summary'' (PStr []))"

definition call_summary :: "(string \<times> pyval) list \<Rightarrow> error + pyval" where
  \<comment> \<open>line 432, a conditional expression: the test first, then the branch taken\<close>
  "call_summary pd =
     bindE (analysis_summary pd) (\<lambda>s0.
     bindE (py_len s0) (\<lambda>n.
       if 200 < n then
         bindE (analysis_summary pd) (\<lambda>s1.
         bindE (py_slice_to s1 200) (\<lambda>cut. py_add cut (PStr ''...'')))
       else analysis_summary pd))"

definition emit_summary :: "(string \<times> pyval) list \<Rightarrow> error + pyval" where
  \<comment> \<open>lines 428-433\<close>
  "emit_summary pd =
     bindE (py_get (PDict pd) ''transcript'' (PDict [])) (\<lambda>t.
     bindE (py_get t ''message_count'' (PInt 0)) (\<lambda>message_count.
     bindE (py_get (PDict pd) ''statistics'' (PDict [])) (\<lambda>s1.
     bindE (py_get s1 ''call_duration_formatted'' (PStr ''N/A'')) (\<lambda>call_duration.
     bindE (py_get (PDict pd) ''statistics'' (PDict [])) (\<lambda>s2.
     bindE (py_get s2 ''costs'' (PDict [])) (\<lambda>costs.
     bindE (py_get costs ''total_cost_dollars'' (PInt 0)) (\<lambda>total_cost.
     bindE (call_summary pd) (\<lambda>summary.
       Inr (PDict [(''message_count'', message_count),
                   (''call_duration'', call_duration),
                   (''total_cost'', total_cost),
                   (''call_summary'', summary)])))))))))"

definition emit_data :: "pyval \<Rightarrow> pyval \<Rightarrow> ConversationSession \<Rightarrow> error + pyval" where
  \<comment> \<open>lines 419-433\<close>
  "emit_data payload webhook_type sess =
     bindE (py_get payload ''data'' (PDict [])) (\<lambda>data.
     let base = [(''type'', webhook_type), (''session_id'', PStr (session_id sess)),
                 (''data'', data)] in
     if py_eq webhook_type (PStr ''post_call_transcription'') \<and> processed_data sess \<noteq> [] then
       bindE (emit_summary (processed_data sess)) (\<lambda>summary.
         Inr (PDict (dict_set base ''summary'' summary)))
     else Inr (PDict base))"

definition record_webhook ::
  "lib \<Rightarrow> env \<Rightarrow> nat \<Rightarrow> pyval \<Rightarrow> pyval \<Rightarrow> ConversationSession
     \<Rightarrow> error + ConversationSession" where
  \<comment> \<open>lines 370-376: the raw event appended and \<open>updated_at\<close> set, at clock readings \<open>k\<close>
      and \<open>k + 1\<close>\<close>
  "record_webhook L E k payload webhook_type sess =
     bindE (py_get payload ''data'' (PDict [])) (\<lambda>data.
       Inr (sess\<lparr>webhook_data := webhook_data sess
                     @ [PDict [(''type'', webhook_type),
                               (''timestamp'', PStr (isoformat L (utcnow E k))),
                               (''data'', data)]],
                   updated_at := utcnow E (Suc k)\<rparr>))"

definition webhook_handler :: "lib \<Rightarrow> env \<Rightarrow> request \<Rightarrow> server \<Rightarrow> server \<times> (error + unit)" where
  \<comment> \<open>lines 311-441, the outer \<open>try\<close> block: the state reached, and the exception if one
      left the block\<close>
  "webhook_handler L E req S =
     (case bindE (json_body req) (\<lambda>payload.
           bindE (py_get payload ''type'' PNone) (\<lambda>webhook_type.
           bindE (py_get payload ''data'' (PDict [])) (\<lambda>data.
           bindE (py_get data ''conversation_id'' PNone) (\<lambda>cid.
           bindE (correlate E (sessions S) payload webhook_type cid) (\<lambda>found.
             Inr (payload, webhook_type, found)))))) of
        Inl e \<Rightarrow> (S, Inl e)
      | Inr (payload, webhook_type, ss, None, k) \<Rightarrow> (S\<lparr>sessions := ss\<rparr>, Inr ())
      | Inr (payload, webhook_type, ss, Some i, k) \<Rightarrow>
          (case record_webhook L E k payload webhook_type (snd (ss ! i)) of
             Inl e \<Rightarrow> (S\<lparr>sessions := ss\<rparr>, Inl e)
           | Inr s1 \<Rightarrow>
               (let s2 = (if py_eq webhook_type (PStr ''post_call_transcription'')
                          then post_call_processing L E payload s1 else s1);
                    s3 = s2\<lparr>status := next_status webhook_type (status s2)\<rparr>;
                    S1 = S\<lparr>sessions := ss[i := (fst (ss ! i), s3)]\<rparr>
                in case emit_data payload webhook_type s3 of
                     Inl e \<Rightarrow> (S1, Inl e)
                   | Inr ed \<Rightarrow>
                       (S1\<lparr>outbox := outbox S1
                              @ [(''webhook_update'', ed, ToRoom (session_id s3))]\<rparr>,
                        Inr ()))))"

definition webhook :: "lib \<Rightarrow> config \<Rightarrow> env \<Rightarrow> request \<Rightarrow> server \<Rightarrow> server \<times> response" where
  "webhook L C E req S =
     (if \<not> verify_webhook_signature L C req then
        (S, \<lparr>code = 401, body = PDict [(''error'', PStr ''Invalid signature'')]\<rparr>)
      else
        (case webhook_handler L E req S of
           (S', Inr u) \<Rightarrow> (S', \<lparr>code = 200, body = PDict [(''status'', PStr ''processed'')]\<rparr>)
         | (S', Inl e) \<Rightarrow>
             (S', \<lparr>code = 500, body = PDict [(''error'', PStr ''Processing failed'')]\<rparr>)))"

subsection \<open>Sessions and realtime events\<close>

definition sessions_get ::
  "(string \<times> ConversationSession) list \<Rightarrow> pyval \<Rightarrow> error + nat option" where
  \<comment> \<open>\<open>sessions.get(key)\<close>: the place of the session; a list or a dict cannot be hashed, and
      no other value equals a string key\<close>
  "sessions_get ss key =
     (case key of
        PStr k \<Rightarrow> Inr (first_index (\<lambda>p. fst p = k) ss)
      | PList xs \<Rightarrow> Inl TypeError
      | PDict d \<Rightarrow> Inl TypeError
      | _ \<Rightarrow> Inr None)"

definition create_session ::
  "config \<Rightarrow> env \<Rightarrow> string \<Rightarrow> request \<Rightarrow> server \<Rightarrow> server \<times> (error + response)" where
  \<comment> \<open>\<open>uuid\<close> is the fresh \<open>uuid.uuid4()\<close>; an exception leaves the view\<close>
  "create_session C E uuid req S =
     (case bindE (json_body req) (\<lambda>data.
           bindE (py_get data ''agent_key'' PNone) (\<lambda>agent_key.
             case agent_key of
               PList xs \<Rightarrow> Inl TypeError
             | PDict d \<Rightarrow> Inl TypeError
             | PStr k \<Rightarrow> Inr (map_of agent_configs k)
             | _ \<Rightarrow> Inr None)) of
        Inl e \<Rightarrow> (S, Inl e)
      | Inr None \<Rightarrow> (S, Inr \<lparr>code = 400, body = PDict [(''error'', PStr ''Invalid agent key'')]\<rparr>)
      | Inr (Some (agent, agent_name, agent_role)) \<Rightarrow>
          (let sess = \<lparr>session_id = uuid,
                       agent_id = agent,
                       conversation_id = PNone,
                       status = INITIALIZING,
                       created_at = utcnow E 0,
                       updated_at = utcnow E 0,
                       metadata = [(''agent_name'', PStr agent_name),
                                   (''agent_role'', PStr agent_role),
                                   (''client_ip'', PStr (remote_addr req))],
                       webhook_data = [],
                       processed_data = []\<rparr>
           in (S\<lparr>sessions := dict_set (sessions S) uuid sess\<rparr>,
               Inr \<lparr>code = 200,
                    body = PDict
                      [(''session_id'', PStr uuid),
                       (''agent'', PDict [(''name'', PStr agent_name),
                                          (''role'', PStr agent_role)]),
                       (''websocket_url'', PStr (''ws://localhost:'' @ show_int (SERVER_PORT C))),
                       (''status'', PStr (status_value (status sess)))]\<rparr>)))"

definition handle_join_session :: "string \<Rightarrow> pyval \<Rightarrow> server \<Rightarrow> server \<times> (error + unit)" where
  \<comment> \<open>\<open>sid\<close> is the client of the event\<close>
  "handle_join_session sid data S =
     (case bindE (py_get data ''session_id'' PNone) (\<lambda>key.
           bindE (sessions_get (sessions S) key) (\<lambda>found. Inr (key, found))) of
        Inl e \<Rightarrow> (S, Inl e)
      | Inr (key, None) \<Rightarrow>
          (S\<lparr>outbox := outbox S
                @ [(''error'', PDict [(''message'', PStr ''Invalid session'')], ToClient sid)]\<rparr>,
           Inr ())
      | Inr (key, Some i) \<Rightarrow>
          (let ss = sessions S;
               sess = (snd (ss ! i))\<lparr>status := ACTIVE\<rparr>
           in (S\<lparr>rooms := rooms S @ [(sid, fst (ss ! i))],
                  sessions := ss[i := (fst (ss ! i), sess)],
                  outbox := outbox S
                    @ [(''session_joined'',
                        PDict [(''session_id'', key),
                               (''status'', PStr (status_value (status sess)))],
                        ToClient sid)]\<rparr>,
               Inr ())))"

definition handle_conversation_started ::
  "env \<Rightarrow> pyval \<Rightarrow> server \<Rightarrow> server \<times> (error + unit)" where
  "handle_conversation_started E data S =
     (case bindE (py_get data ''session_id'' PNone) (\<lambda>key.
           bindE (py_get data ''conversation_id'' PNone) (\<lambda>cid.
           bindE (sessions_get (sessions S) key) (\<lambda>found. Inr (key, cid, found)))) of
        Inl e \<Rightarrow> (S, Inl e)
      | Inr (key, cid, None) \<Rightarrow> (S, Inr ())
      | Inr (key, cid, Some i) \<Rightarrow>
          (let ss = sessions S;
               sess = (snd (ss ! i))\<lparr>conversation_id := cid, status := ACTIVE,
                                     updated_at := utcnow E 0\<rparr>
           in (S\<lparr>sessions := ss[i := (fst (ss ! i), sess)],
                  outbox := outbox S
                    @ [(''conversation_update'',
                        PDict [(''session_id'', key), (''conversation_id'', cid),
                               (''status'', PStr ''started'')],
                        ToRoom (fst (ss ! i)))]\<rparr>,
               Inr ())))"

section \<open>Properties of the session store\<close>

definition open_before :: "(string \<times> ConversationSession) list \<Rightarrow> nat \<Rightarrow> nat" where
  \<comment> \<open>how many sessions before place \<open>i\<close> are Initializing or Active: the number of the clock
      reading that the recency test of the session at \<open>i\<close> uses\<close>
  "open_before ss i = length (filter (\<lambda>p. status_open (snd p)) (take i ss))"

definition recent_open :: "env \<Rightarrow> (string \<times> ConversationSession) list \<Rightarrow> nat \<Rightarrow> bool" where
  \<comment> \<open>the session at place \<open>i\<close> passes the recency filter: it is Initializing or Active and
      was created less than 300 seconds before the clock reading made for it\<close>
  "recent_open E ss i \<longleftrightarrow>
     i < length ss \<and> status_open (snd (ss ! i))
     \<and> utcnow E (open_before ss i) - created_at (snd (ss ! i)) < 300 * 1000000"

definition unique_call_ids :: "(string \<times> ConversationSession) list \<Rightarrow> bool" where
  \<comment> \<open>no two sessions hold equal conversation ids, unless the id is \<open>None\<close>\<close>
  "unique_call_ids ss \<longleftrightarrow>
     (\<forall>i<length ss. \<forall>j<length ss.
        i \<noteq> j \<and> conversation_id (snd (ss ! i)) \<noteq> PNone
        \<longrightarrow> \<not> py_eq (conversation_id (snd (ss ! i))) (conversation_id (snd (ss ! j))))"

section \<open>A concrete environment\<close>

text \<open>
  A library that answers with fixed texts, a configuration and a clock, for running the
  model on concrete inputs.
\<close>

definition plain_lib :: lib where
  "plain_lib =
     \<lparr>hmac_sha256_hexdigest = (\<lambda>key msg. replicate 64 (CHR ''0'')),
      float_repr = (\<lambda>f. ''<float>''),
      container_repr = (\<lambda>v. ''<container>''),
      exc_str = (\<lambda>e. ''<exception>''),
      str_title = (\<lambda>s. s),
      fromtimestamp_isoformat = (\<lambda>v. Inr ''<time>''),
      isoformat = (\<lambda>t. ''<time>''),
      openai_client = Inr (),
      openai_parse = (\<lambda>prompt. Inl ExternalError)\<rparr>"

definition plain_config :: config where
  "plain_config = \<lparr>WEBHOOK_SECRET = ''wsec'', SERVER_PORT = 5000\<rparr>"

definition plain_env :: env where
  \<comment> \<open>every reading of the clock is 1000 seconds\<close>
  "plain_env = \<lparr>utcnow = (\<lambda>k. 1000 * 1000000), local_now = 1000 * 1000000\<rparr>"

definition forged_request :: request where
  "forged_request =
     \<lparr>signature_header = Some ''deadbeef'', raw_body = ''{}'',
      json_body = Inr (PDict []), remote_addr = ''10.0.0.1''\<rparr>"

definition completed_session :: ConversationSession where
  "completed_session =
     \<lparr>session_id = ''s1'', agent_id = ''agent_01jz0h1rqperc8z03gsvkprmsw'',
      conversation_id = PStr ''c1'', status = COMPLETED,
      created_at = 900 * 1000000, updated_at = 950 * 1000000,
      metadata = [], webhook_data = [], processed_data = []\<rparr>"

definition completed_server :: server where
  "completed_server = \<lparr>sessions = [(''s1'', completed_session)], outbox = [], rooms = []\<rparr>"

definition one_credit_payload :: pyval where
  "one_credit_payload =
     PDict [(''type'', PStr ''post_call_transcription''),
            (''data'', PDict [(''metadata'',
               PDict [(''charging'', PDict [(''call_charge'', PInt 1)])])])]"

definition example_cost_payload :: "(string \<times> pyval) list" where
  "example_cost_payload =
     [(''type'', PStr ''post_call_transcription''),
      (''data'', PDict [(''metadata'',
         PDict [(''cost'', PInt 150000),
                (''charging'', PDict [(''call_charge'', PInt 100000),
                                      (''llm_charge'', PInt 50000)])])])]"

definition long_summary_payload :: "(string \<times> pyval) list" where
  "long_summary_payload =
     [(''type'', PStr ''post_call_transcription''),
      (''data'', PDict [(''conversation_id'', PStr ''c1''),
                        (''analysis'', PDict [(''transcript_summary'',
                                               PStr (replicate 201 (CHR ''a'')))])])]"

definition signed_request :: "pyval \<Rightarrow> request" where
  \<comment> \<open>a request whose signature is the digest that \<open>plain_lib\<close> computes\<close>
  "signed_request payload =
     \<lparr>signature_header = Some (replicate 64 (CHR ''0'')), raw_body = ''{}'',
      json_body = Inr payload, remote_addr = ''10.0.0.1''\<rparr>"

definition active_session :: ConversationSession where
  "active_session =
     \<lparr>session_id = ''s1'', agent_id = ''agent_01jz0h1rqperc8z03gsvkprmsw'',
      conversation_id = PStr ''c1'', status = ACTIVE,
      created_at = 900 * 1000000, updated_at = 950 * 1000000,
      metadata = [], webhook_data = [], processed_data = []\<rparr>"

definition active_server :: server where
  "active_server = \<lparr>sessions = [(''s1'', active_session)], outbox = [], rooms = []\<rparr>"

definition no_agent_payload :: "(string \<times> pyval) list" where
  "no_agent_payload =
     [(''type'', PStr ''post_call_transcription''),
      (''data'', PDict [(''conversation_id'', PStr ''c9'')])]"

definition two_sessions :: "(string \<times> ConversationSession) list" where
  \<comment> \<open>A: agent X, created at 900 s, Initializing; B: agent Y, created at 910 s, Active\<close>
  "two_sessions =
     [(''A'', \<lparr>session_id = ''A'', agent_id = ''X'', conversation_id = PNone,
               status = INITIALIZING, created_at = 900 * 1000000,
               updated_at = 900 * 1000000, metadata = [], webhook_data = [],
               processed_data = []\<rparr>),
      (''B'', \<lparr>session_id = ''B'', agent_id = ''Y'', conversation_id = PNone,
               status = ACTIVE, created_at = 910 * 1000000,
               updated_at = 910 * 1000000, metadata = [], webhook_data = [],
               processed_data = []\<rparr>)]"

definition agent_payload :: "string \<Rightarrow> (string \<times> pyval) list" where
  "agent_payload a =
     [(''type'', PStr ''post_call_transcription''),
      (''data'', PDict [(''conversation_id'', PStr ''c9''), (''agent_id'', PStr a)])]"

definition null_summary_payload :: "(string \<times> pyval) list" where
  "null_summary_payload =
     [(''type'', PStr ''post_call_transcription''),
      (''data'', PDict [(''conversation_id'', PStr ''c1''),
                        (''analysis'', PDict [(''transcript_summary'', PNone)])])]"

definition two_server :: server where
  "two_server = \<lparr>sessions = two_sessions, outbox = [], rooms = []\<rparr>"

definition started :: "string \<Rightarrow> string \<Rightarrow> pyval" where
  \<comment> \<open>the data of a \<open>conversation_started\<close> event\<close>
  "started sid cid = PDict [(''session_id'', PStr sid), (''conversation_id'', PStr cid)]"

definition twice_started :: server where
  \<comment> \<open>the clients of A and of B both report the conversation c1\<close>
  "twice_started =
     fst (handle_conversation_started plain_env (started ''B'' ''c1'')
       (fst (handle_conversation_started plain_env (started ''A'' ''c1'') two_server)))"

definition once_started :: server where
  \<comment> \<open>the client of A reports the conversation c1\<close>
  "once_started = fst (handle_conversation_started plain_env (started ''A'' ''c1'') two_server)"

section \<open>Theorems\<close>

lemma bindE_Inr [simp]: "bindE (Inr x) f = f x"
  by (simp add: bindE_def)

lemma bindE_Inl [simp]: "bindE (Inl e) f = Inl e"
  by (simp add: bindE_def)

lemma format_duration_PInt:
  "format_duration L (PInt s) =
     Inr (if s < 60 then show_int s @ '' seconds''
          else if s < 3600 then show_int (s div 60) @ ''m '' @ show_int (s mod 60) @ ''s''
          else show_int (s div 3600) @ ''h '' @ show_int (s mod 3600 div 60) @ ''m ''
                 @ show_int (s mod 60) @ ''s'')"
  by (simp add: format_duration_def py_lt_int_def py_floordiv_int_def py_mod_int_def py_str_def)

lemma show_int_examples:
  "show_int 45 = ''45''" "show_int 2 = ''2''" "show_int 5 = ''5''" "show_int 1 = ''1''"
  by (simp_all add: show_int_def show_nat.simps)

text \<open>
  C8. For a non-negative integer number of seconds \<open>s\<close>, \<open>format_duration\<close> returns: below a
  minute the number followed by \<open>seconds\<close>; below an hour \<open>Mm Ss\<close> with \<open>s = 60 M + S\<close> and
  \<open>S < 60\<close>; from an hour on \<open>Hh Mm Ss\<close> with \<open>s = 3600 H + 60 M + S\<close>, \<open>M < 60\<close> and
  \<open>S < 60\<close>. So 45 gives \<open>45 seconds\<close>, 125 gives \<open>2m 5s\<close> and 3725 gives \<open>1h 2m 5s\<close>.
\<close>

theorem format_duration_renders:
  assumes "0 \<le> s"
  shows "(s < 60 \<longrightarrow> format_duration L (PInt s) = Inr (show_int s @ '' seconds''))
       \<and> (60 \<le> s \<and> s < 3600 \<longrightarrow>
            (\<exists>m sec. s = 60 * m + sec \<and> 1 \<le> m \<and> m < 60 \<and> 0 \<le> sec \<and> sec < 60 \<and>
               format_duration L (PInt s) = Inr (show_int m @ ''m '' @ show_int sec @ ''s'')))
       \<and> (3600 \<le> s \<longrightarrow>
            (\<exists>h m sec. s = 3600 * h + 60 * m + sec \<and> 1 \<le> h \<and> 0 \<le> m \<and> m < 60 \<and>
               0 \<le> sec \<and> sec < 60 \<and>
               format_duration L (PInt s)
                 = Inr (show_int h @ ''h '' @ show_int m @ ''m '' @ show_int sec @ ''s'')))
       \<and> format_duration L (PInt 45) = Inr ''45 seconds''
       \<and> format_duration L (PInt 125) = Inr ''2m 5s''
       \<and> format_duration L (PInt 3725) = Inr ''1h 2m 5s''"
proof (intro conjI impI)
  assume "s < 60"
  then show "format_duration L (PInt s) = Inr (show_int s @ '' seconds'')"
    by (simp add: format_duration_PInt)
next
  assume b: "60 \<le> s \<and> s < 3600"
  have "s = 60 * (s div 60) + s mod 60" by simp
  moreover have "1 \<le> s div 60" "s div 60 < 60" using b by auto
  moreover have "0 \<le> s mod 60" "s mod 60 < 60" by auto
  moreover have "format_duration L (PInt s)
      = Inr (show_int (s div 60) @ ''m '' @ show_int (s mod 60) @ ''s'')"
    using b by (simp add: format_duration_PInt)
  ultimately show "\<exists>m sec. s = 60 * m + sec \<and> 1 \<le> m \<and> m < 60 \<and> 0 \<le> sec \<and> sec < 60 \<and>
      format_duration L (PInt s) = Inr (show_int m @ ''m '' @ show_int sec @ ''s'')"
    by blast
next
  assume b: "3600 \<le> s"
  have c: "s mod 3600 mod 60 = s mod 60"
    by (rule mod_mod_cancel) simp
  have m: "s mod 3600 = 60 * (s mod 3600 div 60) + s mod 60"
    using mult_div_mod_eq [of 60 "s mod 3600"] c by simp
  have "s = 3600 * (s div 3600) + s mod 3600" by simp
  with m have "s = 3600 * (s div 3600) + 60 * (s mod 3600 div 60) + s mod 60" by linarith
  moreover have "1 \<le> s div 3600" using b by auto
  moreover have "0 \<le> s mod 3600 div 60" "s mod 3600 div 60 < 60" by auto
  moreover have "0 \<le> s mod 60" "s mod 60 < 60" by auto
  moreover have "format_duration L (PInt s)
      = Inr (show_int (s div 3600) @ ''h '' @ show_int (s mod 3600 div 60) @ ''m ''
               @ show_int (s mod 60) @ ''s'')"
    using b by (simp add: format_duration_PInt)
  ultimately show "\<exists>h m sec. s = 3600 * h + 60 * m + sec \<and> 1 \<le> h \<and> 0 \<le> m \<and> m < 60 \<and>
      0 \<le> sec \<and> sec < 60 \<and>
      format_duration L (PInt s)
        = Inr (show_int h @ ''h '' @ show_int m @ ''m '' @ show_int sec @ ''s'')"
    by blast
qed (simp_all add: format_duration_PInt show_int_examples)

theorem format_duration_renders_witness:
  "(0 :: int) \<le> 3725
   \<and> (\<exists>h m sec. (3725 :: int) = 3600 * h + 60 * m + sec \<and> 1 \<le> h \<and> 0 \<le> m \<and> m < 60 \<and>
        0 \<le> sec \<and> sec < 60 \<and>
        format_duration plain_lib (PInt 3725)
          = Inr (show_int h @ ''h '' @ show_int m @ ''m '' @ show_int sec @ ''s''))
   \<and> format_duration plain_lib (PInt 3725) = Inr ''1h 2m 5s''"
proof -
  have h: "(0 :: int) \<le> 3725" by simp
  have b: "(3600 :: int) \<le> 3725" by simp
  note t = format_duration_renders [OF h, of plain_lib]
  have e: "\<exists>h m sec. (3725 :: int) = 3600 * h + 60 * m + sec \<and> 1 \<le> h \<and> 0 \<le> m \<and> m < 60 \<and>
        0 \<le> sec \<and> sec < 60 \<and>
        format_duration plain_lib (PInt 3725)
          = Inr (show_int h @ ''h '' @ show_int m @ ''m '' @ show_int sec @ ''s'')"
    using t [THEN conjunct2, THEN conjunct2, THEN conjunct1] b by (rule mp)
  show ?thesis
    using h e t [THEN conjunct2, THEN conjunct2, THEN conjunct2, THEN conjunct2, THEN conjunct2]
    by (intro conjI)
qed

lemma bindE_eq_Inr: "bindE m f = Inr r \<longleftrightarrow> (\<exists>x. m = Inr x \<and> f x = Inr r)"
  by (cases m) simp_all

lemma bindE_eq_Inl: "bindE m f = Inl e \<longleftrightarrow> m = Inl e \<or> (\<exists>x. m = Inr x \<and> f x = Inl e)"
  by (cases m) simp_all

lemma py_get_PDict [simp]:
  "py_get (PDict d) key dflt = Inr (case map_of d key of Some x \<Rightarrow> x | None \<Rightarrow> dflt)"
  by (simp add: py_get_def)

lemma py_get_eq_Inr: "py_get v key dflt = Inr x \<Longrightarrow> \<exists>d. v = PDict d"
  by (cases v) (simp_all add: py_get_def)

lemma first_index_Some_iff:
  "first_index P xs = Some i \<longleftrightarrow> i < length xs \<and> P (xs ! i) \<and> (\<forall>j<i. \<not> P (xs ! j))"
proof (induction xs arbitrary: i)
  case Nil
  then show ?case by simp
next
  case (Cons x xs)
  show ?case
  proof (cases "P x")
    case True
    then show ?thesis by (cases i) auto
  next
    case False
    show ?thesis
    proof (cases i)
      case 0
      with False show ?thesis by auto
    next
      case (Suc n)
      have "(\<forall>j<Suc n. \<not> P ((x # xs) ! j)) \<longleftrightarrow> (\<forall>j<n. \<not> P (xs ! j))"
        using False by (auto simp: less_Suc_eq_0_disj)
      with False Suc Cons.IH [of n] show ?thesis by auto
    qed
  qed
qed

lemma first_index_None_iff: "first_index P xs = None \<longleftrightarrow> (\<forall>x \<in> set xs. \<not> P x)"
  by (induction xs) auto

lemma first_index_distinct_key:
  assumes "distinct (map fst ss)" "i < length ss"
  shows "first_index (\<lambda>p. fst p = fst (ss ! i)) ss = Some i"
proof -
  have "\<not> fst (ss ! j) = fst (ss ! i)" if "j < i" for j
  proof
    assume e: "fst (ss ! j) = fst (ss ! i)"
    from that assms have l: "j < length (map fst ss)" "i < length (map fst ss)" by auto
    from e that assms have "map fst ss ! j = map fst ss ! i" by simp
    with nth_eq_iff_index_eq [OF assms(1) l] have "j = i" by simp
    with that show False by simp
  qed
  with assms show ?thesis by (simp add: first_index_Some_iff)
qed

text \<open>
  C1. The check of the webhook signature accepts a signature that differs from the digest:
  for a request whose header is present, not empty and ASCII, and differs from the
  HMAC-SHA256 hex digest of the body under the secret, \<open>verify_webhook_signature\<close> returns
  True, where the claim wants False.
\<close>

theorem verify_webhook_signature_accepts_mismatch:
  assumes "signature_header req = Some sg" and "sg \<noteq> []"
    and "\<forall>c \<in> set sg. of_char c < (128 :: nat)"
    and "\<forall>c \<in> set (hmac_sha256_hexdigest L (WEBHOOK_SECRET C) (raw_body req)).
           of_char c < (128 :: nat)"
    and "sg \<noteq> hmac_sha256_hexdigest L (WEBHOOK_SECRET C) (raw_body req)"
  shows "verify_webhook_signature L C req = True"
  using assms by (auto simp: verify_webhook_signature_def compare_digest_def Let_def)

theorem verify_webhook_signature_accepts_mismatch_witness:
  "signature_header forged_request = Some ''deadbeef''
   \<and> ''deadbeef'' \<noteq> hmac_sha256_hexdigest plain_lib (WEBHOOK_SECRET plain_config)
         (raw_body forged_request)
   \<and> verify_webhook_signature plain_lib plain_config forged_request = True"
proof -
  have a: "signature_header forged_request = Some ''deadbeef''"
    by (simp add: forged_request_def)
  have b: "''deadbeef'' \<noteq> []" by simp
  have c: "\<forall>c \<in> set ''deadbeef''. of_char c < (128 :: nat)" by simp
  have d: "\<forall>c \<in> set (hmac_sha256_hexdigest plain_lib (WEBHOOK_SECRET plain_config)
              (raw_body forged_request)). of_char c < (128 :: nat)"
    by (simp add: plain_lib_def)
  have e: "''deadbeef'' \<noteq> hmac_sha256_hexdigest plain_lib (WEBHOOK_SECRET plain_config)
             (raw_body forged_request)"
  proof
    assume "''deadbeef'' = hmac_sha256_hexdigest plain_lib (WEBHOOK_SECRET plain_config)
             (raw_body forged_request)"
    then have "length ''deadbeef'' = length (replicate 64 (CHR ''0''))"
      by (simp add: plain_lib_def)
    then show False by simp
  qed
  from verify_webhook_signature_accepts_mismatch [OF a b c d e] a e show ?thesis by simp
qed

text \<open>
  C10. A \<open>join_session\<close> event that names an existing session sets the status of that
  session to Active, whatever it was before, and leaves every other field and every other
  session as it was; a session that was Completed is Active afterwards.
\<close>

theorem handle_join_session_sets_active:
  assumes "distinct (map fst (sessions S))" and "i < length (sessions S)"
    and "map_of d ''session_id'' = Some (PStr (fst (sessions S ! i)))"
  shows "snd (handle_join_session sid (PDict d) S) = Inr ()
       \<and> sessions (fst (handle_join_session sid (PDict d) S))
           = (sessions S)[i := (fst (sessions S ! i), (snd (sessions S ! i))\<lparr>status := ACTIVE\<rparr>)]
       \<and> status (snd (sessions (fst (handle_join_session sid (PDict d) S)) ! i)) = ACTIVE"
proof -
  have f: "sessions_get (sessions S) (PStr (fst (sessions S ! i))) = Inr (Some i)"
    using first_index_distinct_key [OF assms(1,2)] by (simp add: sessions_get_def)
  show ?thesis
    using assms(2,3) f by (simp add: handle_join_session_def Let_def)
qed

theorem handle_join_session_sets_active_witness:
  "distinct (map fst (sessions completed_server))
   \<and> status (snd (sessions completed_server ! 0)) = COMPLETED
   \<and> status (snd (sessions (fst (handle_join_session ''client1''
         (PDict [(''session_id'', PStr ''s1'')]) completed_server)) ! 0)) = ACTIVE"
proof -
  have a: "distinct (map fst (sessions completed_server))"
    by (simp add: completed_server_def)
  have b: "0 < length (sessions completed_server)"
    by (simp add: completed_server_def)
  have c: "map_of [(''session_id'', PStr ''s1'')] ''session_id''
             = Some (PStr (fst (sessions completed_server ! 0)))"
    by (simp add: completed_server_def)
  have d: "status (snd (sessions completed_server ! 0)) = COMPLETED"
    by (simp add: completed_server_def completed_session_def)
  note t = handle_join_session_sets_active [OF a b c, of "''client1''"]
  from a d t [THEN conjunct2, THEN conjunct2] show ?thesis by (intro conjI)
qed

lemma process_post_call_webhook_cases:
  "process_post_call_webhook L now (PDict d) =
     (let ty = (case map_of d ''type'' of Some x \<Rightarrow> x | None \<Rightarrow> PStr []) in
      if \<not> py_eq ty (PStr ''post_call_transcription'') then
        Inr (error_result (''Unexpected webhook type: '' @ py_str L ty) (PDict d))
      else
        (case extract_transcript_data (PDict d) of
           Inl e \<Rightarrow> Inr (error_result (''Error processing webhook: '' @ exc_str L e) (PDict d))
         | Inr td \<Rightarrow>
             (case extract_call_statistics L (PDict d) of
                Inl e \<Rightarrow>
                  Inr (error_result (''Error processing webhook: '' @ exc_str L e) (PDict d))
              | Inr st \<Rightarrow>
                  (case extract_analysis_data (PDict d) of
                     Inl e \<Rightarrow>
                       Inr (error_result (''Error processing webhook: '' @ exc_str L e)
                              (PDict d))
                   | Inr an \<Rightarrow>
                       Inr [(''webhook_type'', ty),
                            (''timestamp'', PStr (isoformat L now)),
                            (''conversation_id'',
                               case map_of td ''conversation_id'' of Some x \<Rightarrow> x | None \<Rightarrow> PNone),
                            (''agent_id'',
                               case map_of td ''agent_id'' of Some x \<Rightarrow> x | None \<Rightarrow> PNone),
                            (''transcript'', PDict td),
                            (''statistics'', PDict st),
                            (''analysis'', PDict an),
                            (''raw_data'', PDict d)]))))"
  by (simp add: process_post_call_webhook_def Let_def split: sum.splits)

text \<open>
  C5. On a payload that is a dict, \<open>process_post_call_webhook\<close> returns a result and raises
  nothing. The result carries the payload unchanged under \<open>raw_data\<close>. When the type of the
  payload is not \<open>post_call_transcription\<close>, or one of the three extractions raises, the
  result is the pair of an \<open>error\<close> text and the raw payload; otherwise it has no \<open>error\<close>
  key.
\<close>

theorem process_post_call_webhook_never_raises:
  "\<exists>r. process_post_call_webhook L now (PDict d) = Inr r
       \<and> map_of r ''raw_data'' = Some (PDict d)
       \<and> (if \<not> py_eq (case map_of d ''type'' of Some x \<Rightarrow> x | None \<Rightarrow> PStr [])
                    (PStr ''post_call_transcription'')
              \<or> isl (extract_transcript_data (PDict d))
              \<or> isl (extract_call_statistics L (PDict d))
              \<or> isl (extract_analysis_data (PDict d))
           then \<exists>msg. r = [(''error'', PStr msg), (''raw_data'', PDict d)]
           else map_of r ''error'' = None)"
  by (auto simp: process_post_call_webhook_cases error_result_def Let_def split: sum.splits)

theorem process_post_call_webhook_never_raises_witness:
  "isl (extract_transcript_data (PDict [(''type'', PStr ''post_call_transcription''),
                                        (''data'', PStr ''oops'')]))
   \<and> process_post_call_webhook plain_lib 0
        (PDict [(''type'', PStr ''post_call_transcription''), (''data'', PStr ''oops'')])
       = Inr [(''error'', PStr ''Error processing webhook: <exception>''),
              (''raw_data'', PDict [(''type'', PStr ''post_call_transcription''),
                                    (''data'', PStr ''oops'')])]"
proof -
  have a: "isl (extract_transcript_data (PDict [(''type'', PStr ''post_call_transcription''),
                                                (''data'', PStr ''oops'')]))"
    by (simp add: extract_transcript_data_def py_get_def)
  have b: "process_post_call_webhook plain_lib 0
        (PDict [(''type'', PStr ''post_call_transcription''), (''data'', PStr ''oops'')])
       = Inr [(''error'', PStr ''Error processing webhook: <exception>''),
              (''raw_data'', PDict [(''type'', PStr ''post_call_transcription''),
                                    (''data'', PStr ''oops'')])]"
    using process_post_call_webhook_never_raises
      [of plain_lib 0 "[(''type'', PStr ''post_call_transcription''), (''data'', PStr ''oops'')]"]
      a
    by (auto simp: process_post_call_webhook_cases extract_transcript_data_def py_get_def
          error_result_def plain_lib_def)
  from a b show ?thesis by simp
qed

lemma int_truediv_examples:
  "int_truediv 100000 100000 = Inr (Fin 1)"
  "int_truediv 50000 100000 = Inr (Fin (1 / 2))"
  "int_truediv 150000 100000 = Inr (Fin (3 / 2))"
  "int_truediv 1 100000 = Inr (Fin (5902958103587057 / 590295810358705651712))"
  by code_simp+

lemma py_round4_examples:
  "py_round4 (Fin 1) = Fin 1"
  "py_round4 (Fin (1 / 2)) = Fin (1 / 2)"
  "py_round4 (Fin (3 / 2)) = Fin (3 / 2)"
  "py_round4 (Fin (5902958103587057 / 590295810358705651712)) = Fin 0"
  by code_simp+

text \<open>
  C9, as stated, fails: with a call charge of one credit the cost in currency is 0.0, not
  the quotient of 1 by 100000 (the double nearest to 0.00001), because the quotient is
  rounded to four decimals.
\<close>

theorem extract_call_statistics_one_credit:
  "extract_call_statistics plain_lib one_credit_payload =
     Inr [(''call_duration_secs'', PInt 0),
          (''call_duration_formatted'', PStr ''0 seconds''),
          (''start_time'', PNone), (''termination_reason'', PStr ''Unknown''),
          (''main_language'', PStr ''Unknown''),
          (''costs'',
           PDict
            [(''total_cost_dollars'', PFloat (Fin 0)),
             (''call_cost_dollars'', PFloat (Fin 0)),
             (''llm_cost_dollars'', PFloat (Fin 0)),
             (''total_cost_credits'', PInt 0), (''call_cost_credits'', PInt 1),
             (''llm_cost_credits'', PInt 0)]),
          (''llm_usage'', PDict []), (''features_used'', PList [])]
   \<and> py_truediv_int (PInt 1) 100000 = Inr (Fin (5902958103587057 / 590295810358705651712))"
  by code_simp

text \<open>
  C9, amended. When \<open>extract_call_statistics\<close> returns, and the call charge, the
  language-model charge and the total cost of the payload are the ints \<open>c1\<close>, \<open>c2\<close> and
  \<open>c3\<close> (0 for a missing entry), then each of the three costs in currency is the int
  divided by 100000 and rounded to four decimals, each from its own amount, and the
  credit amounts are passed on. So the charges 100000, 50000 and the cost 150000 give
  1.0, 0.5 and 1.5.
\<close>

theorem extract_call_statistics_costs:
  assumes "extract_call_statistics L (PDict d) = Inr st"
    and "py_get (PDict d) ''data'' (PDict []) = Inr data"
    and "py_get data ''metadata'' (PDict []) = Inr md"
    and "py_get md ''charging'' (PDict []) = Inr ch"
    and "py_get ch ''call_charge'' (PInt 0) = Inr (PInt c1)"
    and "py_get ch ''llm_charge'' (PInt 0) = Inr (PInt c2)"
    and "py_get md ''cost'' (PInt 0) = Inr (PInt c3)"
  shows "\<exists>f1 f2 f3.
           int_truediv c1 100000 = Inr f1 \<and> int_truediv c2 100000 = Inr f2
         \<and> int_truediv c3 100000 = Inr f3
         \<and> map_of st ''costs'' =
             Some (PDict [(''total_cost_dollars'', PFloat (py_round4 f3)),
                          (''call_cost_dollars'', PFloat (py_round4 f1)),
                          (''llm_cost_dollars'', PFloat (py_round4 f2)),
                          (''total_cost_credits'', PInt c3),
                          (''call_cost_credits'', PInt c1),
                          (''llm_cost_credits'', PInt c2)])
         \<and> (c1 = 100000 \<longrightarrow> py_round4 f1 = Fin 1)
         \<and> (c2 = 50000 \<longrightarrow> py_round4 f2 = Fin (1 / 2))
         \<and> (c3 = 150000 \<longrightarrow> py_round4 f3 = Fin (3 / 2))"
proof -
  from assms obtain f1 f2 f3 where
    f: "int_truediv c1 100000 = Inr f1" "int_truediv c2 100000 = Inr f2"
       "int_truediv c3 100000 = Inr f3"
    and c: "map_of st ''costs'' =
             Some (PDict [(''total_cost_dollars'', PFloat (py_round4 f3)),
                          (''call_cost_dollars'', PFloat (py_round4 f1)),
                          (''llm_cost_dollars'', PFloat (py_round4 f2)),
                          (''total_cost_credits'', PInt c3),
                          (''call_cost_credits'', PInt c1),
                          (''llm_cost_credits'', PInt c2)])"
    unfolding extract_call_statistics_def
    by (auto simp: bindE_eq_Inr py_truediv_int_def)
  have "c1 = 100000 \<longrightarrow> py_round4 f1 = Fin 1"
    using f(1) by (auto simp: int_truediv_examples py_round4_examples)
  moreover have "c2 = 50000 \<longrightarrow> py_round4 f2 = Fin (1 / 2)"
    using f(2) by (auto simp: int_truediv_examples py_round4_examples)
  moreover have "c3 = 150000 \<longrightarrow> py_round4 f3 = Fin (3 / 2)"
    using f(3) by (auto simp: int_truediv_examples py_round4_examples)
  ultimately show ?thesis using f c by blast
qed

theorem extract_call_statistics_costs_witness:
  "(\<exists>st. extract_call_statistics plain_lib (PDict example_cost_payload) = Inr st
      \<and> map_of st ''costs'' =
          Some (PDict [(''total_cost_dollars'', PFloat (Fin (3 / 2))),
                       (''call_cost_dollars'', PFloat (Fin 1)),
                       (''llm_cost_dollars'', PFloat (Fin (1 / 2))),
                       (''total_cost_credits'', PInt 150000),
                       (''call_cost_credits'', PInt 100000),
                       (''llm_cost_credits'', PInt 50000)]))"
proof -
  obtain st where a: "extract_call_statistics plain_lib (PDict example_cost_payload) = Inr st"
    by (simp add: example_cost_payload_def extract_call_statistics_def py_truediv_int_def
          int_truediv_examples foldE.simps add_generation_usage_def py_contains_def
          format_duration_def py_lt_int_def extract_features_used_def py_items_def truthy_def)
  have b: "py_get (PDict example_cost_payload) ''data'' (PDict [])
      = Inr (PDict [(''metadata'',
         PDict [(''cost'', PInt 150000),
                (''charging'', PDict [(''call_charge'', PInt 100000),
                                      (''llm_charge'', PInt 50000)])])])"
    by (simp add: example_cost_payload_def)
  have c: "py_get (PDict [(''metadata'',
         PDict [(''cost'', PInt 150000),
                (''charging'', PDict [(''call_charge'', PInt 100000),
                                      (''llm_charge'', PInt 50000)])])]) ''metadata'' (PDict [])
      = Inr (PDict [(''cost'', PInt 150000),
                (''charging'', PDict [(''call_charge'', PInt 100000),
                                      (''llm_charge'', PInt 50000)])])"
    by simp
  have d: "py_get (PDict [(''cost'', PInt 150000),
                (''charging'', PDict [(''call_charge'', PInt 100000),
                                      (''llm_charge'', PInt 50000)])]) ''charging'' (PDict [])
      = Inr (PDict [(''call_charge'', PInt 100000), (''llm_charge'', PInt 50000)])"
    by simp
  have e: "py_get (PDict [(''call_charge'', PInt 100000), (''llm_charge'', PInt 50000)])
             ''call_charge'' (PInt 0) = Inr (PInt 100000)"
    by simp
  have f: "py_get (PDict [(''call_charge'', PInt 100000), (''llm_charge'', PInt 50000)])
             ''llm_charge'' (PInt 0) = Inr (PInt 50000)"
    by simp
  have g: "py_get (PDict [(''cost'', PInt 150000),
                (''charging'', PDict [(''call_charge'', PInt 100000),
                                      (''llm_charge'', PInt 50000)])]) ''cost'' (PInt 0)
      = Inr (PInt 150000)"
    by simp
  from extract_call_statistics_costs [OF a b c d e f g] a show ?thesis
    by auto
qed

lemma map_of_dict_set:
  "map_of (dict_set d k v) k' = (if k' = k then Some v else map_of d k')"
  by (induction d) auto

lemma dict_set_not_Nil [simp]: "dict_set d k v \<noteq> []"
  by (cases d) auto

lemma extract_call_statistics_costs_dict:
  assumes "extract_call_statistics L w = Inr st"
  shows "\<exists>c. map_of st ''costs'' = Some (PDict c)"
  using assms unfolding extract_call_statistics_def
  by (auto simp: bindE_eq_Inr)

lemma extract_analysis_data_summary:
  assumes "extract_analysis_data w = Inr an"
  shows "\<exists>x. map_of an ''summary'' = Some x"
  using assms unfolding extract_analysis_data_def
  by (auto simp: bindE_eq_Inr)

lemma post_call_processing_fields:
  assumes "py_eq (case map_of d ''type'' of Some x \<Rightarrow> x | None \<Rightarrow> PStr [])
             (PStr ''post_call_transcription'')"
    and "extract_transcript_data (PDict d) = Inr td"
    and "extract_call_statistics L (PDict d) = Inr st"
    and "extract_analysis_data (PDict d) = Inr an"
  shows "map_of (processed_data (post_call_processing L E (PDict d) sess)) ''transcript''
           = Some (PDict td)
       \<and> map_of (processed_data (post_call_processing L E (PDict d) sess)) ''statistics''
           = Some (PDict st)
       \<and> map_of (processed_data (post_call_processing L E (PDict d) sess)) ''analysis''
           = Some (PDict an)
       \<and> processed_data (post_call_processing L E (PDict d) sess) \<noteq> []
       \<and> session_id (post_call_processing L E (PDict d) sess) = session_id sess
       \<and> status (post_call_processing L E (PDict d) sess) = status sess"
  using assms
  by (simp add: post_call_processing_def process_post_call_webhook_cases Let_def
        map_of_dict_set split: sum.splits)

lemma call_summary_string:
  assumes "map_of pd ''analysis'' = Some (PDict an)" and "map_of an ''summary'' = Some (PStr s)"
  shows "call_summary pd = Inr (PStr (if 200 < length s then take 200 s @ ''...'' else s))"
  using assms
  by (simp add: call_summary_def analysis_summary_def py_len_def py_slice_to_def py_add_def)

lemma emit_summary_string:
  assumes "map_of pd ''transcript'' = Some (PDict td)"
    and "map_of pd ''statistics'' = Some (PDict st)"
    and "map_of st ''costs'' = Some (PDict c)"
    and "map_of pd ''analysis'' = Some (PDict an)" and "map_of an ''summary'' = Some (PStr s)"
  shows "\<exists>sm. emit_summary pd = Inr (PDict sm)
            \<and> map_of sm ''call_summary''
                = Some (PStr (if 200 < length s then take 200 s @ ''...'' else s))"
  using assms call_summary_string [OF assms(4,5)]
  by (simp add: emit_summary_def)

text \<open>
  C7. For an authenticated \<open>post_call_transcription\<close> callback that is correlated to a
  session and whose three extractions succeed, with a string \<open>s\<close> as the summary of the
  analysis: the endpoint answers 200 and publishes one \<open>webhook_update\<close> event to the room
  of the session, and the \<open>call_summary\<close> of its summary is \<open>s\<close> itself when \<open>s\<close> has at most
  200 characters, and the first 200 characters of \<open>s\<close> followed by \<open>...\<close> when it has more.
\<close>

theorem webhook_summary_truncation:
  assumes "verify_webhook_signature L C req"
    and "json_body req = Inr (PDict d)"
    and "map_of d ''type'' = Some (PStr ''post_call_transcription'')"
    and "py_get (PDict d) ''data'' (PDict []) = Inr data"
    and "py_get data ''conversation_id'' PNone = Inr cid"
    and "correlate E (sessions S) (PDict d) (PStr ''post_call_transcription'') cid
           = Inr (ss, Some i, k)"
    and "extract_transcript_data (PDict d) = Inr td"
    and "extract_call_statistics L (PDict d) = Inr st"
    and "extract_analysis_data (PDict d) = Inr an"
    and "map_of an ''summary'' = Some (PStr s)"
  shows "\<exists>S' ed sm.
           webhook L C E req S = (S', \<lparr>code = 200, body = PDict [(''status'', PStr ''processed'')]\<rparr>)
         \<and> outbox S' = outbox S
              @ [(''webhook_update'', PDict ed, ToRoom (session_id (snd (ss ! i))))]
         \<and> map_of ed ''summary'' = Some (PDict sm)
         \<and> map_of sm ''call_summary''
             = Some (PStr (if 200 < length s then take 200 s @ ''...'' else s))"
proof -
  define s1 where "s1 = (snd (ss ! i))\<lparr>webhook_data := webhook_data (snd (ss ! i))
                     @ [PDict [(''type'', PStr ''post_call_transcription''),
                               (''timestamp'', PStr (isoformat L (utcnow E k))),
                               (''data'', data)]],
                   updated_at := utcnow E (Suc k)\<rparr>"
  define s2 where "s2 = post_call_processing L E (PDict d) s1"
  define s3 where "s3 = s2\<lparr>status := COMPLETED\<rparr>"
  have ty: "py_eq (case map_of d ''type'' of Some x \<Rightarrow> x | None \<Rightarrow> PStr [])
             (PStr ''post_call_transcription'')"
    using assms(3) by simp
  note pf = post_call_processing_fields [OF ty assms(7,8,9), of E s1, folded s2_def]
  from extract_call_statistics_costs_dict [OF assms(8)]
  obtain c where c: "map_of st ''costs'' = Some (PDict c)" by blast
  have pd3: "processed_data s3 = processed_data s2" "session_id s3 = session_id (snd (ss ! i))"
    using pf by (simp_all add: s3_def s1_def)
  from emit_summary_string [of "processed_data s2" td st c an s] pf c assms(10)
  obtain sm where sm: "emit_summary (processed_data s2) = Inr (PDict sm)"
    "map_of sm ''call_summary'' = Some (PStr (if 200 < length s then take 200 s @ ''...'' else s))"
    by blast
  have rw: "record_webhook L E k (PDict d) (PStr ''post_call_transcription'') (snd (ss ! i))
              = Inr s1"
    using assms(4) by (simp add: record_webhook_def s1_def)
  have ed: "emit_data (PDict d) (PStr ''post_call_transcription'') s3
      = Inr (PDict (dict_set [(''type'', PStr ''post_call_transcription''),
                              (''session_id'', PStr (session_id s3)), (''data'', data)]
                      ''summary'' (PDict sm)))"
    using assms(4) pf sm(1) pd3 by (simp add: emit_data_def Let_def)
  have h: "webhook_handler L E req S
      = (S\<lparr>sessions := ss[i := (fst (ss ! i), s3)],
           outbox := outbox S
             @ [(''webhook_update'',
                 PDict (dict_set [(''type'', PStr ''post_call_transcription''),
                                  (''session_id'', PStr (session_id s3)), (''data'', data)]
                          ''summary'' (PDict sm)),
                 ToRoom (session_id s3))]\<rparr>, Inr ())"
    using assms(2,3,4,5,6) rw ed
    by (simp add: webhook_handler_def Let_def s2_def [symmetric] s3_def [symmetric]
          next_status_def)
  show ?thesis
    using assms(1) h sm(2) pd3(2) by (simp add: webhook_def map_of_dict_set)
qed

theorem webhook_summary_truncation_witness:
  "verify_webhook_signature plain_lib plain_config (signed_request (PDict long_summary_payload))
   \<and> 200 < length (replicate 201 (CHR ''a''))
   \<and> (\<exists>S' ed sm.
         webhook plain_lib plain_config plain_env (signed_request (PDict long_summary_payload))
           active_server
           = (S', \<lparr>code = 200, body = PDict [(''status'', PStr ''processed'')]\<rparr>)
       \<and> outbox S' = outbox active_server @ [(''webhook_update'', PDict ed, ToRoom ''s1'')]
       \<and> map_of ed ''summary'' = Some (PDict sm)
       \<and> map_of sm ''call_summary'' = Some (PStr (replicate 200 (CHR ''a'') @ ''...'')))"
proof -
  have a: "verify_webhook_signature plain_lib plain_config
             (signed_request (PDict long_summary_payload))"
    by code_simp
  have b: "json_body (signed_request (PDict long_summary_payload))
             = Inr (PDict long_summary_payload)"
    by (simp add: signed_request_def)
  have c: "map_of long_summary_payload ''type'' = Some (PStr ''post_call_transcription'')"
    by (simp add: long_summary_payload_def)
  have d: "py_get (PDict long_summary_payload) ''data'' (PDict [])
      = Inr (PDict [(''conversation_id'', PStr ''c1''),
                    (''analysis'', PDict [(''transcript_summary'',
                                           PStr (replicate 201 (CHR ''a'')))])])"
    by (simp add: long_summary_payload_def)
  have e: "py_get (PDict [(''conversation_id'', PStr ''c1''),
                    (''analysis'', PDict [(''transcript_summary'',
                                           PStr (replicate 201 (CHR ''a'')))])])
             ''conversation_id'' PNone = Inr (PStr ''c1'')"
    by simp
  have f: "correlate plain_env (sessions active_server) (PDict long_summary_payload)
             (PStr ''post_call_transcription'') (PStr ''c1'')
           = Inr ([(''s1'', active_session)], Some 0, 0)"
    by code_simp
  have g: "extract_transcript_data (PDict long_summary_payload)
      = Inr [(''conversation_id'', PStr ''c1''), (''agent_id'', PNone),
             (''transcript'', PList []), (''message_count'', PInt 0),
             (''raw_transcript'', PList [])]"
    by code_simp
  have h: "extract_call_statistics plain_lib (PDict long_summary_payload)
      = Inr [(''call_duration_secs'', PInt 0),
             (''call_duration_formatted'', PStr ''0 seconds''),
             (''start_time'', PNone), (''termination_reason'', PStr ''Unknown''),
             (''main_language'', PStr ''Unknown''),
             (''costs'',
              PDict
               [(''total_cost_dollars'', PFloat (Fin 0)),
                (''call_cost_dollars'', PFloat (Fin 0)),
                (''llm_cost_dollars'', PFloat (Fin 0)),
                (''total_cost_credits'', PInt 0), (''call_cost_credits'', PInt 0),
                (''llm_cost_credits'', PInt 0)]),
             (''llm_usage'', PDict []), (''features_used'', PList [])]"
    by code_simp
  have i: "extract_analysis_data (PDict long_summary_payload)
      = Inr [(''summary'', PStr (replicate 201 (CHR ''a''))),
             (''call_successful'', PStr ''unknown''),
             (''collected_data'', PDict []),
             (''evaluation_results'', PDict [])]"
    by code_simp
  have j: "map_of [(''summary'', PStr (replicate 201 (CHR ''a''))),
             (''call_successful'', PStr ''unknown''),
             (''collected_data'', PDict []),
             (''evaluation_results'', PDict [])] ''summary''
           = Some (PStr (replicate 201 (CHR ''a'')))"
    by simp
  have l: "200 < length (replicate 201 (CHR ''a''))" by simp
  have t: "take 200 (replicate 201 (CHR ''a'')) = replicate 200 (CHR ''a'')" by simp
  have sid: "session_id (snd ([(''s1'', active_session)] ! 0)) = ''s1''"
    by (simp add: active_session_def)
  from webhook_summary_truncation [OF a b c d e f g h i j] l
  have "\<exists>S' ed sm.
         webhook plain_lib plain_config plain_env (signed_request (PDict long_summary_payload))
           active_server
           = (S', \<lparr>code = 200, body = PDict [(''status'', PStr ''processed'')]\<rparr>)
       \<and> outbox S' = outbox active_server @ [(''webhook_update'', PDict ed, ToRoom ''s1'')]
       \<and> map_of ed ''summary'' = Some (PDict sm)
       \<and> map_of sm ''call_summary'' = Some (PStr (replicate 200 (CHR ''a'') @ ''...''))"
    unfolding sid t by simp
  with a l show ?thesis by blast
qed

lemma max_created_position:
  "\<exists>m<length (b # rest).
      max_created ss b rest = (b # rest) ! m
    \<and> (\<forall>n<length (b # rest).
          created_at (snd (ss ! ((b # rest) ! n))) \<le> created_at (snd (ss ! ((b # rest) ! m))))
    \<and> (\<forall>n<m. created_at (snd (ss ! ((b # rest) ! n)))
                 < created_at (snd (ss ! ((b # rest) ! m))))"
proof (induction rest arbitrary: b)
  case Nil
  then show ?case by simp
next
  case (Cons i rest)
  let ?key = "\<lambda>j. created_at (snd (ss ! j))"
  show ?case
  proof (cases "?key b < ?key i")
    case True
    from Cons.IH [of i] obtain m where m: "m < length (i # rest)"
      "max_created ss i rest = (i # rest) ! m"
      "\<forall>n<length (i # rest). ?key ((i # rest) ! n) \<le> ?key ((i # rest) ! m)"
      "\<forall>n<m. ?key ((i # rest) ! n) < ?key ((i # rest) ! m)"
      by blast
    from m(3) have "?key i \<le> ?key ((i # rest) ! m)" by force
    with True have b: "?key b < ?key ((i # rest) ! m)" by simp
    have "Suc m < length (b # i # rest)" using m(1) by simp
    moreover have "max_created ss b (i # rest) = (b # i # rest) ! Suc m"
      using True m(2) by simp
    moreover have "\<forall>n<length (b # i # rest).
        ?key ((b # i # rest) ! n) \<le> ?key ((b # i # rest) ! Suc m)"
      using m(3) b by (auto simp: less_Suc_eq_0_disj)
    moreover have "\<forall>n<Suc m. ?key ((b # i # rest) ! n) < ?key ((b # i # rest) ! Suc m)"
      using m(4) b by (auto simp: less_Suc_eq_0_disj)
    ultimately show ?thesis by blast
  next
    case False
    from Cons.IH [of b] obtain m where m: "m < length (b # rest)"
      "max_created ss b rest = (b # rest) ! m"
      "\<forall>n<length (b # rest). ?key ((b # rest) ! n) \<le> ?key ((b # rest) ! m)"
      "\<forall>n<m. ?key ((b # rest) ! n) < ?key ((b # rest) ! m)"
      by blast
    show ?thesis
    proof (cases m)
      case 0
      have "0 < length (b # i # rest)" by simp
      moreover have "max_created ss b (i # rest) = (b # i # rest) ! 0"
        using False m(2) 0 by simp
      moreover have "\<forall>n<length (b # i # rest).
          ?key ((b # i # rest) ! n) \<le> ?key ((b # i # rest) ! 0)"
      proof (intro allI impI)
        fix n assume n: "n < length (b # i # rest)"
        show "?key ((b # i # rest) ! n) \<le> ?key ((b # i # rest) ! 0)"
        proof (cases n)
          case 0
          then show ?thesis by simp
        next
          case (Suc n1)
          show ?thesis
          proof (cases n1)
            case 0
            with Suc False show ?thesis by simp
          next
            case (Suc n2)
            with \<open>n = Suc n1\<close> n have "Suc n2 < length (b # rest)" by simp
            with m(3) \<open>m = 0\<close> have "?key ((b # rest) ! Suc n2) \<le> ?key b" by force
            with Suc \<open>n = Suc n1\<close> show ?thesis by simp
          qed
        qed
      qed
      ultimately show ?thesis by blast
    next
      case (Suc m1)
      have "Suc m < length (b # i # rest)" using m(1) by simp
      moreover have "max_created ss b (i # rest) = (b # i # rest) ! Suc m"
        using False m(2) Suc by simp
      moreover have "\<forall>n<length (b # i # rest).
          ?key ((b # i # rest) ! n) \<le> ?key ((b # i # rest) ! Suc m)"
      proof (intro allI impI)
        fix n assume n: "n < length (b # i # rest)"
        from m(3) have b: "?key b \<le> ?key ((b # rest) ! m)" by force
        show "?key ((b # i # rest) ! n) \<le> ?key ((b # i # rest) ! Suc m)"
        proof (cases n)
          case 0
          with b Suc show ?thesis by simp
        next
          case (Suc n1)
          show ?thesis
          proof (cases n1)
            case 0
            with \<open>n = Suc n1\<close> False b \<open>m = Suc m1\<close> show ?thesis by simp
          next
            case (Suc n2)
            with \<open>n = Suc n1\<close> n have "Suc n2 < length (b # rest)" by simp
            with m(3) have "?key ((b # rest) ! Suc n2) \<le> ?key ((b # rest) ! m)" by blast
            with Suc \<open>n = Suc n1\<close> \<open>m = Suc m1\<close> show ?thesis by simp
          qed
        qed
      qed
      moreover have "\<forall>n<Suc m. ?key ((b # i # rest) ! n) < ?key ((b # i # rest) ! Suc m)"
      proof (intro allI impI)
        fix n assume n: "n < Suc m"
        from m(4) Suc have b: "?key b < ?key ((b # rest) ! m)" by force
        show "?key ((b # i # rest) ! n) < ?key ((b # i # rest) ! Suc m)"
        proof (cases n)
          case 0
          with b Suc show ?thesis by simp
        next
          case (Suc n1)
          show ?thesis
          proof (cases n1)
            case 0
            with \<open>n = Suc n1\<close> False b \<open>m = Suc m1\<close> show ?thesis by simp
          next
            case (Suc n2)
            with \<open>n = Suc n1\<close> n have "Suc n2 < m" by simp
            with m(4) have "?key ((b # rest) ! Suc n2) < ?key ((b # rest) ! m)" by blast
            with Suc \<open>n = Suc n1\<close> \<open>m = Suc m1\<close> show ?thesis by simp
          qed
        qed
      qed
      ultimately show ?thesis by blast
    qed
  qed
qed

lemma max_created_latest:
  assumes "cands = b # rest"
  shows "max_created ss b rest \<in> set cands
       \<and> (\<forall>i \<in> set cands.
             created_at (snd (ss ! i)) \<le> created_at (snd (ss ! max_created ss b rest)))"
proof -
  from max_created_position [of b rest ss] obtain m where m: "m < length (b # rest)"
      "max_created ss b rest = (b # rest) ! m"
      "\<forall>n<length (b # rest).
          created_at (snd (ss ! ((b # rest) ! n))) \<le> created_at (snd (ss ! ((b # rest) ! m)))"
    by blast
  from m(1,2) have "max_created ss b rest \<in> set (b # rest)"
    by (metis nth_mem)
  moreover have "\<forall>i \<in> set (b # rest).
      created_at (snd (ss ! i)) \<le> created_at (snd (ss ! max_created ss b rest))"
    using m(2,3) by (metis in_set_conv_nth)
  ultimately show ?thesis using assms by simp
qed

lemma max_created_first:
  assumes "cands = b # rest" and "sorted_wrt (<) cands"
  shows "\<forall>i \<in> set cands. i < max_created ss b rest \<longrightarrow>
           created_at (snd (ss ! i)) < created_at (snd (ss ! max_created ss b rest))"
proof (intro ballI impI)
  fix i assume i: "i \<in> set cands" "i < max_created ss b rest"
  from max_created_position [of b rest ss] obtain m where m: "m < length (b # rest)"
      "max_created ss b rest = (b # rest) ! m"
      "\<forall>n<m. created_at (snd (ss ! ((b # rest) ! n)))
                 < created_at (snd (ss ! ((b # rest) ! m)))"
    by blast
  from i(1) assms(1) obtain n where n: "n < length (b # rest)" "(b # rest) ! n = i"
    by (metis in_set_conv_nth)
  have "n < m"
  proof (rule ccontr)
    assume "\<not> n < m"
    then have "m \<le> n" by simp
    with assms n(1) have "(b # rest) ! m \<le> (b # rest) ! n"
      by (metis sorted_wrt_nth_less le_neq_implies_less less_imp_le_nat order_refl)
    with i(2) m(2) n(2) show False by simp
  qed
  with m(3) n(2) m(2) show "created_at (snd (ss ! i))
      < created_at (snd (ss ! max_created ss b rest))"
    by auto
qed

lemma matching_sessions_set:
  "i \<in> set (matching_sessions ss agent) \<longleftrightarrow>
     i < length ss \<and> py_eq (PStr (agent_id (snd (ss ! i)))) agent \<and> status_open (snd (ss ! i))"
  by (auto simp: matching_sessions_def)

lemma matching_sessions_sorted: "sorted_wrt (<) (matching_sessions ss agent)"
  by (simp add: matching_sessions_def sorted_wrt_filter)

text \<open>
  C2. A \<open>post_call_transcription\<close> callback whose conversation id no session holds, and
  which carries an agent id, when some session of that agent is Initializing or Active:
  the correlation finds, among those sessions, one whose \<open>created_at\<close> is the latest (the
  first of them in the store, when several share it), sets its \<open>conversation_id\<close> to the id
  of the callback and its status to Active, and changes no other session.
\<close>

theorem correlate_agent_fallback:
  assumes "find_by_conversation_id ss cid = None"
    and "py_get payload ''data'' (PDict []) = Inr data"
    and "py_get data ''agent_id'' PNone = Inr agent"
    and "truthy agent"
    and "\<exists>i<length ss. py_eq (PStr (agent_id (snd (ss ! i)))) agent \<and> status_open (snd (ss ! i))"
  shows "\<exists>j<length ss.
           py_eq (PStr (agent_id (snd (ss ! j)))) agent \<and> status_open (snd (ss ! j))
         \<and> (\<forall>i<length ss.
               py_eq (PStr (agent_id (snd (ss ! i)))) agent \<and> status_open (snd (ss ! i))
               \<longrightarrow> created_at (snd (ss ! i)) \<le> created_at (snd (ss ! j))
                   \<and> (i < j \<longrightarrow> created_at (snd (ss ! i)) < created_at (snd (ss ! j))))
         \<and> correlate E ss payload (PStr ''post_call_transcription'') cid
             = Inr (ss[j := (fst (ss ! j),
                             (snd (ss ! j))\<lparr>conversation_id := cid, status := ACTIVE\<rparr>)],
                    Some j, 0)"
proof -
  from assms(5) obtain i0 where "i0 \<in> set (matching_sessions ss agent)"
    unfolding matching_sessions_set by blast
  then have "matching_sessions ss agent \<noteq> []" by auto
  then obtain b rest where br: "matching_sessions ss agent = b # rest"
    by (cases "matching_sessions ss agent") auto
  define j where "j = max_created ss b rest"
  from max_created_latest [OF br, of ss]
  have jin: "j \<in> set (matching_sessions ss agent)"
    and jmax: "\<forall>i \<in> set (matching_sessions ss agent).
                 created_at (snd (ss ! i)) \<le> created_at (snd (ss ! j))"
    by (simp_all add: j_def)
  from max_created_first [OF br, of ss] matching_sessions_sorted [of ss agent]
  have jfirst: "\<forall>i \<in> set (matching_sessions ss agent).
                 i < j \<longrightarrow> created_at (snd (ss ! i)) < created_at (snd (ss ! j))"
    by (simp add: j_def)
  have f: "find_by_conversation_id ss cid = None" by (rule assms(1))
  have c: "correlate E ss payload (PStr ''post_call_transcription'') cid
             = Inr (bind_session ss (max_created ss b rest) cid,
                    Some (max_created ss b rest), 0)"
    unfolding correlate_def f using assms(2,3,4) br by simp
  have c': "correlate E ss payload (PStr ''post_call_transcription'') cid
             = Inr (ss[j := (fst (ss ! j),
                             (snd (ss ! j))\<lparr>conversation_id := cid, status := ACTIVE\<rparr>)],
                    Some j, 0)"
    unfolding c bind_session_def j_def by (rule refl)
  from jin have j1: "j < length ss" "py_eq (PStr (agent_id (snd (ss ! j)))) agent"
    "status_open (snd (ss ! j))"
    by (simp_all add: matching_sessions_set)
  have j2: "\<forall>i<length ss.
               py_eq (PStr (agent_id (snd (ss ! i)))) agent \<and> status_open (snd (ss ! i))
               \<longrightarrow> created_at (snd (ss ! i)) \<le> created_at (snd (ss ! j))
                   \<and> (i < j \<longrightarrow> created_at (snd (ss ! i)) < created_at (snd (ss ! j)))"
    using jmax jfirst by (simp add: matching_sessions_set)
  show ?thesis
    by (rule exI [of _ j]) (use j1 j2 c' in blast)
qed

theorem correlate_agent_fallback_witness:
  "find_by_conversation_id two_sessions (PStr ''c9'') = None
   \<and> truthy (PStr ''X'')
   \<and> correlate plain_env two_sessions (PDict (agent_payload ''X''))
        (PStr ''post_call_transcription'') (PStr ''c9'')
       = Inr (two_sessions[0 := (fst (two_sessions ! 0),
                 (snd (two_sessions ! 0))\<lparr>conversation_id := PStr ''c9'', status := ACTIVE\<rparr>)],
              Some 0, 0)"
proof -
  have a: "find_by_conversation_id two_sessions (PStr ''c9'') = None"
    by (simp add: find_by_conversation_id_def two_sessions_def)
  have b: "py_get (PDict (agent_payload ''X'')) ''data'' (PDict [])
             = Inr (PDict [(''conversation_id'', PStr ''c9''), (''agent_id'', PStr ''X'')])"
    by (simp add: agent_payload_def)
  have c: "py_get (PDict [(''conversation_id'', PStr ''c9''), (''agent_id'', PStr ''X'')])
             ''agent_id'' PNone = Inr (PStr ''X'')"
    by simp
  have d: "truthy (PStr ''X'')" by (simp add: truthy_def)
  have e: "\<exists>i<length two_sessions.
             py_eq (PStr (agent_id (snd (two_sessions ! i)))) (PStr ''X'')
           \<and> status_open (snd (two_sessions ! i))"
    by (rule exI [of _ 0]) (simp add: two_sessions_def status_open_def)
  from correlate_agent_fallback [OF a b c d e, of plain_env] obtain j where
    j: "j < length two_sessions"
       "py_eq (PStr (agent_id (snd (two_sessions ! j)))) (PStr ''X'')"
       "correlate plain_env two_sessions (PDict (agent_payload ''X''))
          (PStr ''post_call_transcription'') (PStr ''c9'')
        = Inr (two_sessions[j := (fst (two_sessions ! j),
                 (snd (two_sessions ! j))\<lparr>conversation_id := PStr ''c9'', status := ACTIVE\<rparr>)],
               Some j, 0)"
    by blast
  from j(1) have "j = 0 \<or> j = 1" by (auto simp: two_sessions_def)
  with j(2) have "j = 0" by (auto simp: two_sessions_def)
  with j(3) a d show ?thesis by simp
qed

lemma recent_sessions_set:
  "j \<in> set (recent_sessions clk k i ps) \<longleftrightarrow>
     (\<exists>m<length ps. j = i + m \<and> status_open (snd (ps ! m))
        \<and> clk (k + open_before ps m) - created_at (snd (ps ! m)) < 300 * 1000000)"
proof (induction ps arbitrary: k i)
  case Nil
  then show ?case by simp
next
  case (Cons p ps)
  have split: "(\<exists>m<length (p # ps). Q m) \<longleftrightarrow> Q 0 \<or> (\<exists>m<length ps. Q (Suc m))" for Q
    by (auto simp: less_Suc_eq_0_disj)
  show ?case
  proof (cases "status_open (snd p)")
    case True
    then show ?thesis
      by (subst split) (auto simp: Cons.IH open_before_def)
  next
    case False
    then show ?thesis
      by (subst split) (auto simp: Cons.IH open_before_def)
  qed
qed

lemma recent_sessions_sorted: "sorted_wrt (<) (recent_sessions clk k i ps)"
proof (induction ps arbitrary: k i)
  case Nil
  then show ?case by simp
next
  case (Cons p ps)
  have "\<forall>j \<in> set (recent_sessions clk k' (Suc i) ps). i < j" for k'
    by (auto simp: recent_sessions_set)
  with Cons.IH show ?case by simp
qed

text \<open>
  C3, as stated, fails: a completion callback that declares no agent identity binds to no
  session, although an Active session created 100 seconds before is in the store. The
  store is left as it was and the endpoint answers 200.
\<close>

theorem correlate_no_agent_no_fallback:
  "find_by_conversation_id (sessions active_server) (PStr ''c9'') = None
   \<and> recent_sessions (utcnow plain_env) 0 0 (sessions active_server) = [0]
   \<and> correlate plain_env (sessions active_server) (PDict no_agent_payload)
        (PStr ''post_call_transcription'') (PStr ''c9'')
       = Inr (sessions active_server, None, 0)
   \<and> webhook plain_lib plain_config plain_env (signed_request (PDict no_agent_payload))
        active_server
       = (active_server, \<lparr>code = 200, body = PDict [(''status'', PStr ''processed'')]\<rparr>)"
  by code_simp

text \<open>
  C3, amended. For a \<open>post_call_transcription\<close> callback whose conversation id no session
  holds: when it declares no agent identity, the correlation finds nothing and changes
  nothing. When it declares one and no session of that agent is Initializing or Active,
  the candidates are the sessions that are Initializing or Active and whose \<open>created_at\<close>
  is less than 300 seconds before the clock reading made for them, whatever their agent;
  with no candidate nothing is found or changed, otherwise one with the latest
  \<open>created_at\<close> (the first such in the store) gets the conversation id of the callback
  and the status Active, and no other session changes.
\<close>

theorem correlate_recency_fallback:
  assumes "find_by_conversation_id ss cid = None"
    and "py_get payload ''data'' (PDict []) = Inr data"
    and "py_get data ''agent_id'' PNone = Inr agent"
    and "\<forall>i<length ss. \<not> (py_eq (PStr (agent_id (snd (ss ! i)))) agent
                              \<and> status_open (snd (ss ! i)))"
  shows "(\<not> truthy agent \<longrightarrow>
            correlate E ss payload (PStr ''post_call_transcription'') cid = Inr (ss, None, 0))
       \<and> (truthy agent \<and> (\<forall>i. \<not> recent_open E ss i) \<longrightarrow>
            correlate E ss payload (PStr ''post_call_transcription'') cid
              = Inr (ss, None, open_before ss (length ss)))
       \<and> (truthy agent \<and> (\<exists>i. recent_open E ss i) \<longrightarrow>
            (\<exists>j. recent_open E ss j
               \<and> (\<forall>i. recent_open E ss i \<longrightarrow> created_at (snd (ss ! i)) \<le> created_at (snd (ss ! j))
                     \<and> (i < j \<longrightarrow> created_at (snd (ss ! i)) < created_at (snd (ss ! j))))
               \<and> correlate E ss payload (PStr ''post_call_transcription'') cid
                   = Inr (ss[j := (fst (ss ! j),
                                   (snd (ss ! j))\<lparr>conversation_id := cid, status := ACTIVE\<rparr>)],
                          Some j, open_before ss (length ss))))"
proof -
  have f: "find_by_conversation_id ss cid = None" by (rule assms(1))
  have m: "matching_sessions ss agent = []"
    using assms(4) by (auto simp: matching_sessions_def filter_empty_conv)
  have r: "i \<in> set (recent_sessions (utcnow E) 0 0 ss) \<longleftrightarrow> recent_open E ss i" for i
    unfolding recent_open_def recent_sessions_set by auto
  have n: "length (filter (\<lambda>p. status_open (snd p)) ss) = open_before ss (length ss)"
    by (simp add: open_before_def)
  have 1: "\<not> truthy agent \<longrightarrow>
      correlate E ss payload (PStr ''post_call_transcription'') cid = Inr (ss, None, 0)"
    unfolding correlate_def f using assms(2,3) by simp
  have 2: "truthy agent \<and> (\<forall>i. \<not> recent_open E ss i) \<longrightarrow>
      correlate E ss payload (PStr ''post_call_transcription'') cid
        = Inr (ss, None, open_before ss (length ss))"
  proof
    assume a: "truthy agent \<and> (\<forall>i. \<not> recent_open E ss i)"
    have e: "recent_sessions (utcnow E) 0 0 ss = []"
    proof (cases "recent_sessions (utcnow E) 0 0 ss")
      case Nil
      then show ?thesis .
    next
      case (Cons x xs)
      then have "x \<in> set (recent_sessions (utcnow E) 0 0 ss)" by simp
      then have "recent_open E ss x" by (simp only: r)
      with a show ?thesis by blast
    qed
    show "correlate E ss payload (PStr ''post_call_transcription'') cid
        = Inr (ss, None, open_before ss (length ss))"
      unfolding correlate_def f using assms(2,3) a m e n by simp
  qed
  have 3: "truthy agent \<and> (\<exists>i. recent_open E ss i) \<longrightarrow>
            (\<exists>j. recent_open E ss j
               \<and> (\<forall>i. recent_open E ss i \<longrightarrow> created_at (snd (ss ! i)) \<le> created_at (snd (ss ! j))
                     \<and> (i < j \<longrightarrow> created_at (snd (ss ! i)) < created_at (snd (ss ! j))))
               \<and> correlate E ss payload (PStr ''post_call_transcription'') cid
                   = Inr (ss[j := (fst (ss ! j),
                                   (snd (ss ! j))\<lparr>conversation_id := cid, status := ACTIVE\<rparr>)],
                          Some j, open_before ss (length ss)))"
  proof
    assume a: "truthy agent \<and> (\<exists>i. recent_open E ss i)"
    then have "recent_sessions (utcnow E) 0 0 ss \<noteq> []" using r by fastforce
    then obtain b rest where br: "recent_sessions (utcnow E) 0 0 ss = b # rest"
      by (cases "recent_sessions (utcnow E) 0 0 ss") auto
    define j where "j = max_created ss b rest"
    from max_created_latest [OF br, of ss]
    have jin: "recent_open E ss j"
      and jmax: "\<forall>i. recent_open E ss i \<longrightarrow> created_at (snd (ss ! i)) \<le> created_at (snd (ss ! j))"
      by (simp_all add: j_def r)
    from max_created_first [OF br, of ss] recent_sessions_sorted [of "utcnow E" 0 0 ss]
    have jfirst: "\<forall>i. recent_open E ss i \<longrightarrow> i < j \<longrightarrow>
        created_at (snd (ss ! i)) < created_at (snd (ss ! j))"
      by (simp add: j_def r)
    have c: "correlate E ss payload (PStr ''post_call_transcription'') cid
             = Inr (bind_session ss (max_created ss b rest) cid,
                    Some (max_created ss b rest), open_before ss (length ss))"
      unfolding correlate_def f using assms(2,3) a m br n by simp
    have c': "correlate E ss payload (PStr ''post_call_transcription'') cid
             = Inr (ss[j := (fst (ss ! j),
                             (snd (ss ! j))\<lparr>conversation_id := cid, status := ACTIVE\<rparr>)],
                    Some j, open_before ss (length ss))"
      unfolding c bind_session_def j_def by (rule refl)
    show "\<exists>j. recent_open E ss j
               \<and> (\<forall>i. recent_open E ss i \<longrightarrow> created_at (snd (ss ! i)) \<le> created_at (snd (ss ! j))
                     \<and> (i < j \<longrightarrow> created_at (snd (ss ! i)) < created_at (snd (ss ! j))))
               \<and> correlate E ss payload (PStr ''post_call_transcription'') cid
                   = Inr (ss[j := (fst (ss ! j),
                                   (snd (ss ! j))\<lparr>conversation_id := cid, status := ACTIVE\<rparr>)],
                          Some j, open_before ss (length ss))"
      by (rule exI [of _ j]) (use jin jmax jfirst c' in blast)
  qed
  from 1 2 3 show ?thesis by (intro conjI)
qed

theorem correlate_recency_fallback_witness:
  "find_by_conversation_id two_sessions (PStr ''c9'') = None
   \<and> truthy (PStr ''Z'')
   \<and> recent_open plain_env two_sessions 1
   \<and> correlate plain_env two_sessions (PDict (agent_payload ''Z''))
        (PStr ''post_call_transcription'') (PStr ''c9'')
       = Inr (two_sessions[1 := (fst (two_sessions ! 1),
                 (snd (two_sessions ! 1))\<lparr>conversation_id := PStr ''c9'', status := ACTIVE\<rparr>)],
              Some 1, 2)"
proof -
  have a: "find_by_conversation_id two_sessions (PStr ''c9'') = None"
    by (simp add: find_by_conversation_id_def two_sessions_def)
  have b: "py_get (PDict (agent_payload ''Z'')) ''data'' (PDict [])
             = Inr (PDict [(''conversation_id'', PStr ''c9''), (''agent_id'', PStr ''Z'')])"
    by (simp add: agent_payload_def)
  have c: "py_get (PDict [(''conversation_id'', PStr ''c9''), (''agent_id'', PStr ''Z'')])
             ''agent_id'' PNone = Inr (PStr ''Z'')"
    by simp
  have d: "\<forall>i<length two_sessions.
             \<not> (py_eq (PStr (agent_id (snd (two_sessions ! i)))) (PStr ''Z'')
                \<and> status_open (snd (two_sessions ! i)))"
    by (simp add: two_sessions_def less_Suc_eq_0_disj)
  have t: "truthy (PStr ''Z'')" by (simp add: truthy_def)
  have ob: "open_before two_sessions 0 = 0" "open_before two_sessions 1 = 1"
    "open_before two_sessions (length two_sessions) = 2"
    by (simp_all add: open_before_def two_sessions_def status_open_def)
  have r1: "recent_open plain_env two_sessions 1"
    unfolding recent_open_def ob by (simp add: two_sessions_def status_open_def plain_env_def)
  from correlate_recency_fallback [OF a b c d, of plain_env, THEN conjunct2, THEN conjunct2]
    t r1
  obtain j where j: "recent_open plain_env two_sessions j"
    "\<forall>i. recent_open plain_env two_sessions i
       \<longrightarrow> created_at (snd (two_sessions ! i)) \<le> created_at (snd (two_sessions ! j))"
    "correlate plain_env two_sessions (PDict (agent_payload ''Z''))
        (PStr ''post_call_transcription'') (PStr ''c9'')
       = Inr (two_sessions[j := (fst (two_sessions ! j),
                 (snd (two_sessions ! j))\<lparr>conversation_id := PStr ''c9'', status := ACTIVE\<rparr>)],
              Some j, open_before two_sessions (length two_sessions))"
    by blast
  from j(1) have "j = 0 \<or> j = 1" by (auto simp: recent_open_def two_sessions_def)
  moreover from j(2) r1 have "created_at (snd (two_sessions ! 1))
      \<le> created_at (snd (two_sessions ! j))"
    by blast
  ultimately have "j = 1" by (auto simp: two_sessions_def)
  with j(3) a t r1 ob show ?thesis by simp
qed

text \<open>
  C4, as stated, fails: an authenticated callback whose body is a JSON array is answered
  with 500; and an authenticated \<open>post_call_transcription\<close> callback whose analysis has
  \<open>null\<close> for its summary is answered with 500, after the session was recorded as Completed
  and before anything is published.
\<close>

theorem webhook_answers_500:
  "verify_webhook_signature plain_lib plain_config (signed_request (PList []))
   \<and> webhook plain_lib plain_config plain_env (signed_request (PList [])) active_server
       = (active_server, \<lparr>code = 500, body = PDict [(''error'', PStr ''Processing failed'')]\<rparr>)
   \<and> verify_webhook_signature plain_lib plain_config
         (signed_request (PDict null_summary_payload))
   \<and> snd (webhook plain_lib plain_config plain_env (signed_request (PDict null_summary_payload))
          active_server)
       = \<lparr>code = 500, body = PDict [(''error'', PStr ''Processing failed'')]\<rparr>
   \<and> status (snd (sessions (fst (webhook plain_lib plain_config plain_env
          (signed_request (PDict null_summary_payload)) active_server)) ! 0)) = COMPLETED
   \<and> outbox (fst (webhook plain_lib plain_config plain_env
          (signed_request (PDict null_summary_payload)) active_server)) = []"
  by code_simp

lemma correlate_None:
  assumes "correlate E ss payload ty cid = Inr (ss', None, k)"
  shows "ss' = ss"
  using assms unfolding correlate_def
  by (auto simp: bindE_eq_Inr Let_def split: option.splits if_splits list.splits)

lemma correlate_other_type:
  assumes "\<not> py_eq ty (PStr ''post_call_transcription'')"
  shows "\<exists>found. correlate E ss payload ty cid = Inr (ss, found, 0)"
  using assms unfolding correlate_def
  by (auto split: option.splits)

lemma webhook_verified:
  assumes "verify_webhook_signature L C req"
  shows "webhook L C E req S =
    (fst (webhook_handler L E req S),
     case snd (webhook_handler L E req S) of
       Inr u \<Rightarrow> \<lparr>code = 200, body = PDict [(''status'', PStr ''processed'')]\<rparr>
     | Inl e \<Rightarrow> \<lparr>code = 500, body = PDict [(''error'', PStr ''Processing failed'')]\<rparr>)"
proof (cases "webhook_handler L E req S")
  case (Pair S' r)
  with assms show ?thesis
    by (cases r) (simp_all add: webhook_def)
qed

text \<open>
  C4, amended. A request whose signature check fails is answered with 401 and changes
  nothing. An authenticated request is answered with 200 and \<open>status: processed\<close> when the
  handler completes, and with 500 and \<open>error: Processing failed\<close> when an exception leaves
  it; nothing else is answered. The handler completes, with 200, when the payload is an
  object whose \<open>data\<close> is an object or missing and either the correlation finds no session
  (then no session changes and nothing is published), or the type of the callback is not
  \<open>post_call_transcription\<close>.
\<close>

theorem webhook_response:
  "(\<not> verify_webhook_signature L C req \<longrightarrow>
      webhook L C E req S
        = (S, \<lparr>code = 401, body = PDict [(''error'', PStr ''Invalid signature'')]\<rparr>))
   \<and> (verify_webhook_signature L C req \<longrightarrow>
        fst (webhook L C E req S) = fst (webhook_handler L E req S)
      \<and> (snd (webhook_handler L E req S) = Inr () \<longrightarrow>
            snd (webhook L C E req S)
              = \<lparr>code = 200, body = PDict [(''status'', PStr ''processed'')]\<rparr>)
      \<and> (\<forall>e. snd (webhook_handler L E req S) = Inl e \<longrightarrow>
            snd (webhook L C E req S)
              = \<lparr>code = 500, body = PDict [(''error'', PStr ''Processing failed'')]\<rparr>))
   \<and> (verify_webhook_signature L C req \<and> json_body req = Inr (PDict d)
        \<and> py_get (PDict d) ''data'' (PDict []) = Inr (PDict dd)
        \<and> correlate E (sessions S) (PDict d)
             (case map_of d ''type'' of Some x \<Rightarrow> x | None \<Rightarrow> PNone)
             (case map_of dd ''conversation_id'' of Some x \<Rightarrow> x | None \<Rightarrow> PNone)
            = Inr (ss, None, k) \<longrightarrow>
        webhook L C E req S
          = (S, \<lparr>code = 200, body = PDict [(''status'', PStr ''processed'')]\<rparr>))
   \<and> (verify_webhook_signature L C req \<and> json_body req = Inr (PDict d)
        \<and> py_get (PDict d) ''data'' (PDict []) = Inr (PDict dd)
        \<and> \<not> py_eq (case map_of d ''type'' of Some x \<Rightarrow> x | None \<Rightarrow> PNone)
                 (PStr ''post_call_transcription'') \<longrightarrow>
        snd (webhook L C E req S)
          = \<lparr>code = 200, body = PDict [(''status'', PStr ''processed'')]\<rparr>)"
proof (intro conjI impI allI)
  assume "\<not> verify_webhook_signature L C req"
  then show "webhook L C E req S
      = (S, \<lparr>code = 401, body = PDict [(''error'', PStr ''Invalid signature'')]\<rparr>)"
    by (simp add: webhook_def)
next
  assume "verify_webhook_signature L C req"
  then show "fst (webhook L C E req S) = fst (webhook_handler L E req S)"
    by (simp add: webhook_verified)
next
  assume "verify_webhook_signature L C req" "snd (webhook_handler L E req S) = Inr ()"
  then show "snd (webhook L C E req S)
      = \<lparr>code = 200, body = PDict [(''status'', PStr ''processed'')]\<rparr>"
    by (simp add: webhook_verified)
next
  fix e
  assume "verify_webhook_signature L C req" "snd (webhook_handler L E req S) = Inl e"
  then show "snd (webhook L C E req S)
      = \<lparr>code = 500, body = PDict [(''error'', PStr ''Processing failed'')]\<rparr>"
    by (simp add: webhook_verified)
next
  assume a: "verify_webhook_signature L C req \<and> json_body req = Inr (PDict d)
        \<and> py_get (PDict d) ''data'' (PDict []) = Inr (PDict dd)
        \<and> correlate E (sessions S) (PDict d)
             (case map_of d ''type'' of Some x \<Rightarrow> x | None \<Rightarrow> PNone)
             (case map_of dd ''conversation_id'' of Some x \<Rightarrow> x | None \<Rightarrow> PNone)
            = Inr (ss, None, k)"
  then have "ss = sessions S" by (blast dest: correlate_None)
  with a have "webhook_handler L E req S = (S, Inr ())"
    by (simp add: webhook_handler_def)
  with a show "webhook L C E req S
      = (S, \<lparr>code = 200, body = PDict [(''status'', PStr ''processed'')]\<rparr>)"
    by (simp add: webhook_def)
next
  assume a: "verify_webhook_signature L C req \<and> json_body req = Inr (PDict d)
        \<and> py_get (PDict d) ''data'' (PDict []) = Inr (PDict dd)
        \<and> \<not> py_eq (case map_of d ''type'' of Some x \<Rightarrow> x | None \<Rightarrow> PNone)
                 (PStr ''post_call_transcription'')"
  define ty where "ty = (case map_of d ''type'' of Some x \<Rightarrow> x | None \<Rightarrow> PNone)"
  define cid where "cid = (case map_of dd ''conversation_id'' of Some x \<Rightarrow> x | None \<Rightarrow> PNone)"
  from a correlate_other_type [of ty E "sessions S" "PDict d" cid]
  obtain found where c: "correlate E (sessions S) (PDict d) ty cid = Inr (sessions S, found, 0)"
    by (auto simp: ty_def)
  have "snd (webhook_handler L E req S) = Inr ()"
  proof (cases found)
    case None
    with a c show ?thesis
      by (simp add: webhook_handler_def ty_def [symmetric] cid_def [symmetric])
  next
    case (Some i)
    with a c show ?thesis
      by (simp add: webhook_handler_def ty_def [symmetric] cid_def [symmetric]
            record_webhook_def emit_data_def Let_def)
  qed
  with a show "snd (webhook L C E req S)
      = \<lparr>code = 200, body = PDict [(''status'', PStr ''processed'')]\<rparr>"
    by (simp add: webhook_verified)
qed

theorem webhook_response_witness:
  "verify_webhook_signature plain_lib plain_config (signed_request (PDict no_agent_payload))
   \<and> correlate plain_env (sessions active_server) (PDict no_agent_payload)
        (PStr ''post_call_transcription'') (PStr ''c9'')
       = Inr (sessions active_server, None, 0)
   \<and> webhook plain_lib plain_config plain_env (signed_request (PDict no_agent_payload))
        active_server
       = (active_server, \<lparr>code = 200, body = PDict [(''status'', PStr ''processed'')]\<rparr>)
   \<and> \<not> verify_webhook_signature plain_lib plain_config
          ((signed_request (PDict no_agent_payload))\<lparr>signature_header := None\<rparr>)
   \<and> webhook plain_lib plain_config plain_env
        ((signed_request (PDict no_agent_payload))\<lparr>signature_header := None\<rparr>) active_server
       = (active_server, \<lparr>code = 401, body = PDict [(''error'', PStr ''Invalid signature'')]\<rparr>)"
proof -
  have a: "verify_webhook_signature plain_lib plain_config
             (signed_request (PDict no_agent_payload))"
    by code_simp
  have b: "json_body (signed_request (PDict no_agent_payload)) = Inr (PDict no_agent_payload)"
    by (simp add: signed_request_def)
  have c: "py_get (PDict no_agent_payload) ''data'' (PDict [])
             = Inr (PDict [(''conversation_id'', PStr ''c9'')])"
    by (simp add: no_agent_payload_def)
  have d: "correlate plain_env (sessions active_server) (PDict no_agent_payload)
             (case map_of no_agent_payload ''type'' of Some x \<Rightarrow> x | None \<Rightarrow> PNone)
             (case map_of [(''conversation_id'', PStr ''c9'')] ''conversation_id'' of
                Some x \<Rightarrow> x | None \<Rightarrow> PNone)
           = Inr (sessions active_server, None, 0)"
    by code_simp
  have d': "correlate plain_env (sessions active_server) (PDict no_agent_payload)
        (PStr ''post_call_transcription'') (PStr ''c9'')
       = Inr (sessions active_server, None, 0)"
    using d by (simp add: no_agent_payload_def)
  have e: "\<not> verify_webhook_signature plain_lib plain_config
          ((signed_request (PDict no_agent_payload))\<lparr>signature_header := None\<rparr>)"
    by (simp add: verify_webhook_signature_def)
  note t = webhook_response [of plain_lib plain_config _ plain_env active_server
      no_agent_payload "[(''conversation_id'', PStr ''c9'')]" "sessions active_server" 0]
  from t [of "signed_request (PDict no_agent_payload)", THEN conjunct2, THEN conjunct2,
      THEN conjunct1] a b c d
  have r1: "webhook plain_lib plain_config plain_env (signed_request (PDict no_agent_payload))
        active_server
       = (active_server, \<lparr>code = 200, body = PDict [(''status'', PStr ''processed'')]\<rparr>)"
    by blast
  from t [of "(signed_request (PDict no_agent_payload))\<lparr>signature_header := None\<rparr>",
      THEN conjunct1] e
  have r2: "webhook plain_lib plain_config plain_env
        ((signed_request (PDict no_agent_payload))\<lparr>signature_header := None\<rparr>) active_server
       = (active_server, \<lparr>code = 401, body = PDict [(''error'', PStr ''Invalid signature'')]\<rparr>)"
    by blast
  from a d' r1 e r2 show ?thesis by (intro conjI)
qed

lemma py_eq_PNone_right [simp]: "py_eq a PNone \<longleftrightarrow> a = PNone"
  by (cases a) (auto simp: num_value_def)

lemma py_eq_PStr_right [simp]: "py_eq a (PStr s) \<longleftrightarrow> a = PStr s"
  by (cases a) (auto simp: num_value_def)

lemma py_eq_sym: "py_eq a b \<Longrightarrow> py_eq b a"
proof (induction a arbitrary: b)
  case PNone
  then show ?case by simp
next
  case (PBool c)
  then show ?case by (cases b) (auto simp: num_value_def split: if_splits)
next
  case (PInt i)
  then show ?case by (cases b) (auto simp: num_value_def split: if_splits)
next
  case (PFloat f)
  then show ?case by (cases b) (auto simp: num_value_def split: if_splits)
next
  case (PStr s)
  then show ?case by simp
next
  case (PList xs)
  from PList.prems obtain ys where b: "b = PList ys" and l: "list_all2 py_eq xs ys"
    by (cases b) auto
  from l PList.IH have "list_all2 py_eq ys xs"
    by (induction xs ys rule: list_all2_induct) auto
  with b show ?case by simp
next
  case (PDict d)
  from PDict.prems obtain d' where b: "b = PDict d'"
    and 1: "\<forall>(k, v) \<in> set d. \<exists>(k', v') \<in> set d'. k = k' \<and> py_eq v v'"
    and 2: "\<forall>(k', v') \<in> set d'. \<exists>(k, v) \<in> set d. k = k' \<and> py_eq v v'"
    by (cases b) auto
  have ih: "py_eq v v' \<Longrightarrow> py_eq v' v" if "(k, v) \<in> set d" for k v v'
    using PDict.IH [of "(k, v)" v v'] that by auto
  have "\<forall>(k', v') \<in> set d'. \<exists>(k, v) \<in> set d. k' = k \<and> py_eq v' v"
    using 2 ih by fastforce
  moreover have "\<forall>(k, v) \<in> set d. \<exists>(k', v') \<in> set d'. k' = k \<and> py_eq v' v"
    using 1 ih by fastforce
  ultimately show ?case using b by simp
qed

text \<open>
  C6, as stated, fails: after the clients of two sessions have each reported the same
  conversation, both sessions hold its id, and the scan for the id of the second session
  returns the first.
\<close>

theorem conversation_started_duplicates:
  "conversation_id (snd (sessions twice_started ! 0)) = PStr ''c1''
   \<and> conversation_id (snd (sessions twice_started ! 1)) = PStr ''c1''
   \<and> find_by_conversation_id (sessions twice_started)
        (conversation_id (snd (sessions twice_started ! 1))) = Some 0"
  by code_simp

lemma find_by_conversation_id_None:
  assumes "find_by_conversation_id ss cid = None" and "i < length ss"
  shows "\<not> py_eq (conversation_id (snd (ss ! i))) cid"
  using assms by (auto simp: find_by_conversation_id_def first_index_None_iff)

lemma unique_call_ids_same_ids:
  assumes "unique_call_ids ss" and "length ss' = length ss"
    and "\<forall>i<length ss. conversation_id (snd (ss' ! i)) = conversation_id (snd (ss ! i))"
  shows "unique_call_ids ss'"
  using assms unfolding unique_call_ids_def by simp

lemma unique_call_ids_update_same:
  assumes "unique_call_ids ss"
    and "i < length ss \<longrightarrow> conversation_id (snd p) = conversation_id (snd (ss ! i))"
  shows "unique_call_ids (ss[i := p])"
proof (rule unique_call_ids_same_ids [OF assms(1)])
  show "length (ss[i := p]) = length ss" by simp
  show "\<forall>j<length ss. conversation_id (snd (ss[i := p] ! j)) = conversation_id (snd (ss ! j))"
  proof (cases "i < length ss")
    case True
    with assms(2) show ?thesis by (auto simp: nth_list_update)
  next
    case False
    then show ?thesis by (simp add: list_update_beyond)
  qed
qed

lemma unique_call_ids_update:
  assumes "unique_call_ids ss"
    and "cid \<noteq> PNone \<longrightarrow> (\<forall>i<length ss. i \<noteq> j \<longrightarrow> \<not> py_eq (conversation_id (snd (ss ! i))) cid)"
    and "conversation_id (snd p) = cid"
  shows "unique_call_ids (ss[j := p])"
  unfolding unique_call_ids_def
proof (intro allI impI)
  fix a b
  assume a: "a < length (ss[j := p])" and b: "b < length (ss[j := p])"
    and ab: "a \<noteq> b \<and> conversation_id (snd (ss[j := p] ! a)) \<noteq> PNone"
  show "\<not> py_eq (conversation_id (snd (ss[j := p] ! a))) (conversation_id (snd (ss[j := p] ! b)))"
  proof (cases "a = j")
    case True
    with a b ab assms(2,3) have "\<not> py_eq (conversation_id (snd (ss ! b))) cid"
      by auto
    then have "\<not> py_eq cid (conversation_id (snd (ss ! b)))"
      by (blast dest: py_eq_sym)
    with True a b ab assms(3) show ?thesis by (simp add: nth_list_update)
  next
    case False
    show ?thesis
    proof (cases "b = j")
      case True
      show ?thesis
      proof (cases "cid = PNone")
        case True
        with \<open>b = j\<close> False a b ab assms(3) show ?thesis by (auto simp: nth_list_update)
      next
        case c: False
        with \<open>b = j\<close> False a assms(2) have "\<not> py_eq (conversation_id (snd (ss ! a))) cid"
          by auto
        with \<open>b = j\<close> False a b assms(3) show ?thesis by (simp add: nth_list_update)
      qed
    next
      case b': False
      with False a b ab assms(1) show ?thesis
        by (simp add: nth_list_update unique_call_ids_def)
    qed
  qed
qed

lemma unique_call_ids_append_None:
  assumes "unique_call_ids ss" and "conversation_id (snd p) = PNone"
  shows "unique_call_ids (ss @ [p])"
  unfolding unique_call_ids_def
proof (intro allI impI)
  fix a b
  assume a: "a < length (ss @ [p])" and b: "b < length (ss @ [p])"
    and ab: "a \<noteq> b \<and> conversation_id (snd ((ss @ [p]) ! a)) \<noteq> PNone"
  from ab assms(2) a have a': "a < length ss" by (cases "a = length ss") auto
  show "\<not> py_eq (conversation_id (snd ((ss @ [p]) ! a))) (conversation_id (snd ((ss @ [p]) ! b)))"
  proof (cases "b = length ss")
    case True
    with a' ab assms(2) show ?thesis by (simp add: nth_append)
  next
    case False
    with b have "b < length ss" by simp
    with a' ab assms(1) show ?thesis by (simp add: nth_append unique_call_ids_def)
  qed
qed

lemma dict_set_cases:
  "dict_set ss k v = ss @ [(k, v)] \<or> (\<exists>i<length ss. dict_set ss k v = ss[i := (k, v)])"
proof (induction ss)
  case Nil
  then show ?case by simp
next
  case (Cons p ps)
  show ?case
  proof (cases "fst p = k")
    case True
    have "dict_set (p # ps) k v = (p # ps)[0 := (k, v)]" using True by simp
    then show ?thesis by blast
  next
    case False
    from Cons.IH show ?thesis
    proof
      assume "dict_set ps k v = ps @ [(k, v)]"
      with False show ?thesis by simp
    next
      assume "\<exists>i<length ps. dict_set ps k v = ps[i := (k, v)]"
      then obtain i where "i < length ps" "dict_set ps k v = ps[i := (k, v)]" by blast
      with False have "Suc i < length (p # ps)"
        "dict_set (p # ps) k v = (p # ps)[Suc i := (k, v)]" by simp_all
      then show ?thesis by blast
    qed
  qed
qed

lemma correlate_shape:
  assumes "correlate E ss payload ty cid = Inr (ss', found, k)"
  shows "ss' = ss \<or> (\<exists>j. find_by_conversation_id ss cid = None \<and> ss' = bind_session ss j cid)"
  using assms unfolding correlate_def
  by (auto simp: bindE_eq_Inr Let_def split: option.splits if_splits list.splits)

lemma unique_call_ids_correlate:
  assumes "unique_call_ids ss" and "correlate E ss payload ty cid = Inr (ss', found, k)"
  shows "unique_call_ids ss'"
proof -
  from correlate_shape [OF assms(2)] show ?thesis
  proof
    assume "ss' = ss"
    with assms(1) show ?thesis by simp
  next
    assume "\<exists>j. find_by_conversation_id ss cid = None \<and> ss' = bind_session ss j cid"
    then obtain j where n: "find_by_conversation_id ss cid = None"
      and b: "ss' = bind_session ss j cid" by blast
    have "unique_call_ids (ss[j := (fst (ss ! j),
        (snd (ss ! j))\<lparr>conversation_id := cid, status := ACTIVE\<rparr>)])"
    proof (rule unique_call_ids_update [OF assms(1), of cid])
      show "cid \<noteq> PNone \<longrightarrow>
          (\<forall>i<length ss. i \<noteq> j \<longrightarrow> \<not> py_eq (conversation_id (snd (ss ! i))) cid)"
        using find_by_conversation_id_None [OF n] by blast
      show "conversation_id (snd (fst (ss ! j),
          (snd (ss ! j))\<lparr>conversation_id := cid, status := ACTIVE\<rparr>)) = cid"
        by simp
    qed
    with b show ?thesis by (simp add: bind_session_def)
  qed
qed

lemma post_call_processing_conversation_id:
  "conversation_id (post_call_processing L E payload sess) = conversation_id sess"
  by (simp add: post_call_processing_def Let_def split: sum.splits)

lemma record_webhook_conversation_id:
  assumes "record_webhook L E k payload ty sess = Inr s1"
  shows "conversation_id s1 = conversation_id sess"
  using assms by (auto simp: record_webhook_def bindE_eq_Inr)

lemma unique_call_ids_webhook_handler:
  assumes "unique_call_ids (sessions S)"
  shows "unique_call_ids (sessions (fst (webhook_handler L E req S)))"
proof (cases "bindE (json_body req) (\<lambda>payload.
           bindE (py_get payload ''type'' PNone) (\<lambda>webhook_type.
           bindE (py_get payload ''data'' (PDict [])) (\<lambda>data.
           bindE (py_get data ''conversation_id'' PNone) (\<lambda>cid.
           bindE (correlate E (sessions S) payload webhook_type cid) (\<lambda>found.
             Inr (payload, webhook_type, found))))))")
  case (Inl e)
  with assms show ?thesis by (simp add: webhook_handler_def)
next
  case (Inr r)
  obtain payload ty ss found k where r: "r = (payload, ty, ss, found, k)"
    by (cases r) auto
  from Inr r obtain cid where c: "correlate E (sessions S) payload ty cid = Inr (ss, found, k)"
    by (auto simp: bindE_eq_Inr)
  from unique_call_ids_correlate [OF assms c] have u: "unique_call_ids ss" .
  show ?thesis
  proof (cases found)
    case None
    with Inr r u show ?thesis by (simp add: webhook_handler_def)
  next
    case (Some i)
    show ?thesis
    proof (cases "record_webhook L E k payload ty (snd (ss ! i))")
      case (Inl e)
      with Inr r Some u show ?thesis by (simp add: webhook_handler_def)
    next
      case s1: (Inr s1)
      define s3 where "s3 = (let s2 = (if py_eq ty (PStr ''post_call_transcription'')
                          then post_call_processing L E payload s1 else s1)
                             in s2\<lparr>status := next_status ty (status s2)\<rparr>)"
      have "conversation_id s3 = conversation_id (snd (ss ! i))"
        using record_webhook_conversation_id [OF s1]
        by (simp add: s3_def Let_def post_call_processing_conversation_id)
      then have u3: "unique_call_ids (ss[i := (fst (ss ! i), s3)])"
        by (intro unique_call_ids_update_same [OF u]) simp
      have "sessions (fst (webhook_handler L E req S)) = ss[i := (fst (ss ! i), s3)]"
        using Inr r Some s1
        by (simp add: webhook_handler_def Let_def s3_def split: sum.splits)
      with u3 show ?thesis by simp
    qed
  qed
qed

text \<open>
  C6, amended. Suppose no two sessions hold equal conversation ids other than \<open>None\<close>. Then
  this is still so after a webhook callback, after a session is created and after a
  \<open>join_session\<close> event; it is still so after a \<open>conversation_started\<close> event when no session
  held the reported id before; and the scan for the id of a session (not \<open>None\<close>, and equal
  to itself) returns this session.
\<close>

theorem unique_call_ids_preserved:
  assumes "unique_call_ids (sessions S)"
  shows "unique_call_ids (sessions (fst (webhook L C E req S)))
       \<and> unique_call_ids (sessions (fst (create_session C E uuid req S)))
       \<and> unique_call_ids (sessions (fst (handle_join_session sid data S)))
       \<and> ((\<forall>cid. py_get data ''conversation_id'' PNone = Inr cid \<and> cid \<noteq> PNone
                 \<longrightarrow> find_by_conversation_id (sessions S) cid = None)
            \<longrightarrow> unique_call_ids (sessions (fst (handle_conversation_started E data S))))
       \<and> (\<forall>i<length (sessions S).
             conversation_id (snd (sessions S ! i)) \<noteq> PNone
             \<and> py_eq (conversation_id (snd (sessions S ! i)))
                  (conversation_id (snd (sessions S ! i)))
             \<longrightarrow> find_by_conversation_id (sessions S) (conversation_id (snd (sessions S ! i)))
                   = Some i)"
proof (intro conjI impI allI)
  show "unique_call_ids (sessions (fst (webhook L C E req S)))"
  proof (cases "verify_webhook_signature L C req")
    case True
    then show ?thesis
      by (simp add: webhook_verified unique_call_ids_webhook_handler [OF assms])
  next
    case False
    with assms show ?thesis by (simp add: webhook_def)
  qed
next
  show "unique_call_ids (sessions (fst (create_session C E uuid req S)))"
  proof (cases "bindE (json_body req) (\<lambda>data.
           bindE (py_get data ''agent_key'' PNone) (\<lambda>agent_key.
             case agent_key of
               PList xs \<Rightarrow> Inl TypeError
             | PDict d \<Rightarrow> Inl TypeError
             | PStr k \<Rightarrow> Inr (map_of agent_configs k)
             | _ \<Rightarrow> Inr None))")
    case (Inl e)
    with assms show ?thesis by (simp add: create_session_def)
  next
    case (Inr found)
    show ?thesis
    proof (cases found)
      case None
      with Inr assms show ?thesis by (simp add: create_session_def)
    next
      case (Some cfg)
      obtain agent agent_name agent_role where cfg: "cfg = (agent, agent_name, agent_role)"
        by (cases cfg) auto
      define sess where "sess = \<lparr>session_id = uuid, agent_id = agent,
                       conversation_id = PNone, status = INITIALIZING,
                       created_at = utcnow E 0, updated_at = utcnow E 0,
                       metadata = [(''agent_name'', PStr agent_name),
                                   (''agent_role'', PStr agent_role),
                                   (''client_ip'', PStr (remote_addr req))],
                       webhook_data = [], processed_data = []\<rparr>"
      have s: "sessions (fst (create_session C E uuid req S)) = dict_set (sessions S) uuid sess"
        using Inr Some cfg by (simp add: create_session_def Let_def sess_def)
      have n: "conversation_id (snd (uuid, sess)) = PNone" by (simp add: sess_def)
      from dict_set_cases [of "sessions S" uuid sess]
      have "unique_call_ids (dict_set (sessions S) uuid sess)"
      proof
        assume "dict_set (sessions S) uuid sess = sessions S @ [(uuid, sess)]"
        with unique_call_ids_append_None [OF assms n] show ?thesis by simp
      next
        assume "\<exists>i<length (sessions S). dict_set (sessions S) uuid sess
                  = (sessions S)[i := (uuid, sess)]"
        then obtain i where "dict_set (sessions S) uuid sess = (sessions S)[i := (uuid, sess)]"
          by blast
        with unique_call_ids_update [OF assms _ n, of i] show ?thesis by simp
      qed
      with s show ?thesis by simp
    qed
  qed
next
  show "unique_call_ids (sessions (fst (handle_join_session sid data S)))"
  proof (cases "bindE (py_get data ''session_id'' PNone) (\<lambda>key.
           bindE (sessions_get (sessions S) key) (\<lambda>found. Inr (key, found)))")
    case (Inl e)
    with assms show ?thesis by (simp add: handle_join_session_def)
  next
    case (Inr r)
    obtain key found where r: "r = (key, found)" by (cases r) auto
    show ?thesis
    proof (cases found)
      case None
      with Inr r assms show ?thesis by (simp add: handle_join_session_def)
    next
      case (Some i)
      have "unique_call_ids ((sessions S)[i := (fst (sessions S ! i),
                (snd (sessions S ! i))\<lparr>status := ACTIVE\<rparr>)])"
        by (intro unique_call_ids_update_same [OF assms]) simp
      with Inr r Some show ?thesis by (simp add: handle_join_session_def Let_def)
    qed
  qed
next
  assume fresh: "\<forall>cid. py_get data ''conversation_id'' PNone = Inr cid \<and> cid \<noteq> PNone
                 \<longrightarrow> find_by_conversation_id (sessions S) cid = None"
  show "unique_call_ids (sessions (fst (handle_conversation_started E data S)))"
  proof (cases "bindE (py_get data ''session_id'' PNone) (\<lambda>key.
           bindE (py_get data ''conversation_id'' PNone) (\<lambda>cid.
           bindE (sessions_get (sessions S) key) (\<lambda>found. Inr (key, cid, found))))")
    case (Inl e)
    with assms show ?thesis by (simp add: handle_conversation_started_def)
  next
    case (Inr r)
    obtain key cid found where r: "r = (key, cid, found)" by (cases r) auto
    from Inr r have g: "py_get data ''conversation_id'' PNone = Inr cid"
      by (auto simp: bindE_eq_Inr)
    show ?thesis
    proof (cases found)
      case None
      with Inr r assms show ?thesis by (simp add: handle_conversation_started_def)
    next
      case (Some i)
      have "unique_call_ids ((sessions S)[i := (fst (sessions S ! i),
                (snd (sessions S ! i))\<lparr>conversation_id := cid, status := ACTIVE,
                                         updated_at := utcnow E 0\<rparr>)])"
      proof (rule unique_call_ids_update [OF assms, of cid])
        show "cid \<noteq> PNone \<longrightarrow> (\<forall>j<length (sessions S). j \<noteq> i \<longrightarrow>
            \<not> py_eq (conversation_id (snd (sessions S ! j))) cid)"
          using fresh g find_by_conversation_id_None [of "sessions S" cid] by blast
        show "conversation_id (snd (fst (sessions S ! i),
                (snd (sessions S ! i))\<lparr>conversation_id := cid, status := ACTIVE,
                                         updated_at := utcnow E 0\<rparr>)) = cid"
          by simp
      qed
      with Inr r Some show ?thesis by (simp add: handle_conversation_started_def Let_def)
    qed
  qed
next
  fix i
  assume i: "i < length (sessions S)"
    and c: "conversation_id (snd (sessions S ! i)) \<noteq> PNone
             \<and> py_eq (conversation_id (snd (sessions S ! i)))
                  (conversation_id (snd (sessions S ! i)))"
  have "\<not> py_eq (conversation_id (snd (sessions S ! j))) (conversation_id (snd (sessions S ! i)))"
    if "j < i" for j
  proof (cases "conversation_id (snd (sessions S ! j)) = PNone")
    case True
    with c show ?thesis by simp
  next
    case False
    with that i assms show ?thesis by (simp add: unique_call_ids_def)
  qed
  with i c show "find_by_conversation_id (sessions S) (conversation_id (snd (sessions S ! i)))
      = Some i"
    by (simp add: find_by_conversation_id_def first_index_Some_iff)
qed

theorem unique_call_ids_preserved_witness:
  "unique_call_ids (sessions two_server)
   \<and> find_by_conversation_id (sessions two_server) (PStr ''c1'') = None
   \<and> unique_call_ids (sessions once_started)
   \<and> conversation_id (snd (sessions once_started ! 0)) = PStr ''c1''
   \<and> find_by_conversation_id (sessions once_started) (PStr ''c1'') = Some 0"
proof -
  have a: "unique_call_ids (sessions two_server)"
    by (simp add: unique_call_ids_def two_server_def two_sessions_def less_Suc_eq_0_disj)
  have f: "find_by_conversation_id (sessions two_server) (PStr ''c1'') = None"
    by code_simp
  have g: "\<forall>cid. py_get (started ''A'' ''c1'') ''conversation_id'' PNone = Inr cid \<and> cid \<noteq> PNone
                 \<longrightarrow> find_by_conversation_id (sessions two_server) cid = None"
    using f by (simp add: started_def)
  from unique_call_ids_preserved [OF a, of plain_lib plain_config plain_env
      "signed_request PNone" "''u''" "''client''" "started ''A'' ''c1''", THEN conjunct2,
      THEN conjunct2, THEN conjunct2, THEN conjunct1] g
  have b: "unique_call_ids (sessions once_started)"
    unfolding once_started_def by blast
  have l: "0 < length (sessions once_started)" by code_simp
  have c: "conversation_id (snd (sessions once_started ! 0)) = PStr ''c1''" by code_simp
  from unique_call_ids_preserved [OF b, of plain_lib plain_config plain_env
      "signed_request PNone" "''u''" "''client''" PNone, THEN conjunct2, THEN conjunct2,
      THEN conjunct2, THEN conjunct2] l c
  have d: "find_by_conversation_id (sessions once_started) (PStr ''c1'') = Some 0"
    by force
  from a f b c d show ?thesis by (intro conjI)
qed

end
